theory Spec2Isabelle
  imports Main "HOL-Library.Word" "HOL-Library.Signed_Division"
begin

unbundle bit_operations_syntax

section \<open>Machine integers of the driver\<close>

text \<open>
  The driver is C for the Linux kernel: \<open>u8\<close> is an 8-bit word, \<open>unsigned int\<close> and
  \<open>int\<close> are 32-bit words (an \<open>int\<close> is read with \<open>sint\<close> and compared with
  \<open><s\<close>), \<open>long long\<close> is a 64-bit word. Arithmetic on words wraps around, as the
  kernel's build (two's complement, wrapping signed arithmetic) does.
\<close>

type_synonym u8 = "8 word"
type_synonym u32 = "32 word"
type_synonym s32 = "32 word"
type_synonym s64 = "64 word"

text \<open>C's \<open>/\<close> on \<open>int\<close>: the quotient truncated towards zero.\<close>

definition c_sdiv :: "s32 \<Rightarrow> s32 \<Rightarrow> s32" where
  "c_sdiv a b = word_of_int (sint a sdiv sint b)"

text \<open>\<open>EINVAL\<close> of the kernel's errno table; the driver returns \<open>-EINVAL\<close>.\<close>

definition EINVAL :: int where
  "EINVAL = 22"

section \<open>Register map (the macros of the driver)\<close>

abbreviation (input) LTC5599_FREQ_REG :: "'a::len word" where
  "LTC5599_FREQ_REG \<equiv> 0x00"
abbreviation (input) LTC5599_FREQ_VALUE :: "'a::len word \<Rightarrow> 'a word" where
  "LTC5599_FREQ_VALUE n \<equiv> n AND 0x7F"
abbreviation (input) LTC5599_FREQ_MASK :: "'a::len word" where
  "LTC5599_FREQ_MASK \<equiv> 0x7F"
abbreviation (input) LTC5599_IQ_PHASEBAL_EXT_SIGN_BIT :: "'a::len word" where
  "LTC5599_IQ_PHASEBAL_EXT_SIGN_BIT \<equiv> push_bit 7 1"

abbreviation (input) LTC5599_GAIN_REG :: "'a::len word" where
  "LTC5599_GAIN_REG \<equiv> 0x01"
abbreviation (input) LTC5599_GAIN_VALUE :: "'a::len word \<Rightarrow> 'a word" where
  "LTC5599_GAIN_VALUE n \<equiv> n AND 0x1F"
abbreviation (input) LTC5599_GAIN_MASK :: "'a::len word" where
  "LTC5599_GAIN_MASK \<equiv> 0x1F"

abbreviation (input) LTC5599_OFFSI_REG :: "'a::len word" where
  "LTC5599_OFFSI_REG \<equiv> 0x02"
abbreviation (input) LTC5599_OFFSQ_REG :: "'a::len word" where
  "LTC5599_OFFSQ_REG \<equiv> 0x03"
abbreviation (input) LTC5599_OFFS_VALUE :: "'a::len word \<Rightarrow> 'a word" where
  "LTC5599_OFFS_VALUE n \<equiv> n AND 0xFF"

abbreviation (input) LTC5599_IQ_GAINRAT_REG :: "'a::len word" where
  "LTC5599_IQ_GAINRAT_REG \<equiv> 0x04"
abbreviation (input) LTC5599_IQ_GAINRAT_VALUE :: "'a::len word \<Rightarrow> 'a word" where
  "LTC5599_IQ_GAINRAT_VALUE n \<equiv> n AND 0xFF"

abbreviation (input) LTC5599_IQ_PHASEBAL_REG :: "'a::len word" where
  "LTC5599_IQ_PHASEBAL_REG \<equiv> 0x05"
abbreviation (input) LTC5599_IQ_PHASEBAL_FINE_VALUE :: "'a::len word \<Rightarrow> 'a word" where
  "LTC5599_IQ_PHASEBAL_FINE_VALUE n \<equiv> n AND 0x1F"
abbreviation (input) LTC5599_IQ_PHASEBAL_FINE_MASK :: "'a::len word" where
  "LTC5599_IQ_PHASEBAL_FINE_MASK \<equiv> 0x1F"
abbreviation (input) LTC5599_IQ_PHASEBAL_EXT_SHIFT :: nat where
  "LTC5599_IQ_PHASEBAL_EXT_SHIFT \<equiv> 5"
abbreviation (input) LTC5599_IQ_PHASEBAL_EXT_VALUE :: "'a::len word \<Rightarrow> 'a word" where
  "LTC5599_IQ_PHASEBAL_EXT_VALUE n \<equiv> push_bit LTC5599_IQ_PHASEBAL_EXT_SHIFT (n AND 0x07)"
abbreviation (input) LTC5599_IQ_PHASEBAL_EXT_MASK :: "'a::len word" where
  "LTC5599_IQ_PHASEBAL_EXT_MASK \<equiv> push_bit LTC5599_IQ_PHASEBAL_EXT_SHIFT 0x07"

abbreviation (input) LTC5599_LOMATCH_OVR_REG :: "'a::len word" where
  "LTC5599_LOMATCH_OVR_REG \<equiv> 0x06"
abbreviation (input) LTC5599_TEMPCORR_OVR_REG :: "'a::len word" where
  "LTC5599_TEMPCORR_OVR_REG \<equiv> 0x07"
abbreviation (input) LTC5599_MODE_REG :: "'a::len word" where
  "LTC5599_MODE_REG \<equiv> 0x08"

abbreviation (input) LTC5599_READ_OPERATION :: "'a::len word" where
  "LTC5599_READ_OPERATION \<equiv> 0x01"

section \<open>The SPI bus and the chip behind it\<close>

text \<open>
  The SPI core (\<open>spi_sync\<close>) and the chip are not part of the driver. The driver needs
  one primitive from them: exchange a frame, get a status (0, or a negative errno) and,
  on success, the bytes clocked in. They are modelled as an ideal register file behind
  a scripted bus:
  \<^item> \<open>regs\<close> is the chip's register file, by 7-bit address;
  \<^item> \<open>faults\<close> scripts the coming transfers: the head is the errno of the next one
    (0 for success); past the end of the script every transfer succeeds;
  \<^item> \<open>frames\<close> logs every frame handed to the bus, failed ones too, so that a state
    whose log has not grown has seen no bus traffic.
  A frame is two bytes: \<open>(address << 1) | read_bit\<close>, then the payload. A failed
  transfer leaves the register file as it was and delivers no bytes.
\<close>

record spi_device =
  regs :: "u8 \<Rightarrow> u8"
  faults :: "nat list"
  frames :: "u8 list list"

definition chip_exchange :: "(u8 \<Rightarrow> u8) \<Rightarrow> u8 list \<Rightarrow> u8 list \<times> (u8 \<Rightarrow> u8)" where
  "chip_exchange rf tx =
     (case tx of
        [c, d] \<Rightarrow>
          if c AND LTC5599_READ_OPERATION \<noteq> 0
          then ([0, rf (drop_bit 1 c)], rf)
          else ([0, d], rf(drop_bit 1 c := d))
      | _ \<Rightarrow> (map (\<lambda>_. 0) tx, rf))"

definition next_errno :: "spi_device \<Rightarrow> nat" where
  "next_errno dev = (case faults dev of [] \<Rightarrow> 0 | e # _ \<Rightarrow> e)"

definition spi_sync :: "spi_device \<Rightarrow> u8 list \<Rightarrow> int \<times> u8 list \<times> spi_device" where
  "spi_sync dev tx =
     (let errno = next_errno dev;
          dev1 = dev\<lparr>faults := tl (faults dev), frames := frames dev @ [tx]\<rparr>
      in if errno \<noteq> 0 then (- int errno, [], dev1)
         else (let (rx, rf) = chip_exchange (regs dev1) tx
               in (0, rx, dev1\<lparr>regs := rf\<rparr>)))"

text \<open>
  \<open>spi_read_while_write\<close>: nothing to do for an empty transfer, else one synchronous
  full-duplex message. The receive buffer may be \<open>NULL\<close> (\<open>want_rx = False\<close>), and then
  the bytes clocked in are dropped.
\<close>

definition spi_read_while_write ::
  "spi_device \<Rightarrow> u8 list \<Rightarrow> bool \<Rightarrow> nat \<Rightarrow> int \<times> u8 list \<times> spi_device" where
  "spi_read_while_write dev txbuf want_rx n_trx =
     (if n_trx = 0 then (0, [], dev)
      else (let (status, rx, dev1) = spi_sync dev (take n_trx txbuf)
            in (status, if want_rx then rx else [], dev1)))"

section \<open>Driver instance\<close>

text \<open>
  \<open>struct ltc5599\<close>: the SPI device, the two-byte transfer buffer and the 32-byte
  shadow of the chip's registers. The lock taken around each transfer has no effect in
  a sequential model and is left out.
\<close>

record ltc5599 =
  spi :: spi_device
  data :: "u8 list"
  shadowregs :: "u8 list"

definition ltc5599_write :: "ltc5599 \<Rightarrow> u8 \<Rightarrow> u8 \<Rightarrow> int \<times> ltc5599" where
  "ltc5599_write st addr val =
     (let st1 = st\<lparr>data := [push_bit 1 (addr AND 0x7F) AND NOT LTC5599_READ_OPERATION,
                            val AND 0xFF]\<rparr>;
          (ret, rx, dev) = spi_read_while_write (spi st1) (data st1) False 2
      in (ret, st1\<lparr>spi := dev\<rparr>))"

text \<open>
  \<open>ltc5599_read\<close> stores the byte read through its out-parameter only when the
  status is not negative, and returns the status; every caller returns at once when the
  status is not 0. The status of a transfer is 0 or a negative errno, so the two tests
  agree: the result is \<open>Inl status\<close> for a failed transfer and \<open>Inr byte\<close> otherwise.
\<close>

definition ltc5599_read :: "ltc5599 \<Rightarrow> u8 \<Rightarrow> (int + u8) \<times> ltc5599" where
  "ltc5599_read st addr =
     (let st1 = st\<lparr>data := [push_bit 1 (addr AND 0x7F) OR LTC5599_READ_OPERATION, 0xFF]\<rparr>;
          (ret, tmp, dev) = spi_read_while_write (spi st1) (data st1) True 2;
          st2 = st1\<lparr>spi := dev\<rparr>
      in if ret < 0 then (Inl ret, st2) else (Inr (tmp ! 1), st2))"

section \<open>Parameter accessors\<close>

text \<open>
  Each accessor follows the C text: the integer promotions are written out (a \<open>u8\<close>
  operand is widened with \<open>ucast\<close>, the result narrowed with \<open>ucast\<close> on
  assignment), a non-zero status of the register access is returned at once, and the
  shadow register is stored only after the access succeeded.
\<close>

definition ltc5599_write_freq :: "ltc5599 \<Rightarrow> u32 \<Rightarrow> int \<times> ltc5599" where
  "ltc5599_write_freq st val =
     (let tmp = shadowregs st ! unat (LTC5599_FREQ_REG :: u32);
          tmp = (ucast (((ucast tmp :: u32) AND NOT LTC5599_FREQ_MASK)
                        OR LTC5599_FREQ_VALUE val) :: u8);
          (ret, st1) = ltc5599_write st LTC5599_FREQ_REG tmp
      in if ret \<noteq> 0 then (ret, st1)
         else (0, st1\<lparr>shadowregs := (shadowregs st1)[unat (LTC5599_FREQ_REG :: u32) := tmp]\<rparr>))"

definition ltc5599_read_freq :: "ltc5599 \<Rightarrow> (int + u32) \<times> ltc5599" where
  "ltc5599_read_freq st =
     (case ltc5599_read st LTC5599_FREQ_REG of
        (Inl ret, st1) \<Rightarrow> (Inl ret, st1)
      | (Inr tmp, st1) \<Rightarrow>
          (let st2 = st1\<lparr>shadowregs := (shadowregs st1)[unat (LTC5599_FREQ_REG :: u32) := tmp]\<rparr>
           in (Inr (ucast (shadowregs st2 ! unat (LTC5599_FREQ_REG :: u32)) AND LTC5599_FREQ_MASK),
               st2)))"

definition ltc5599_write_gain :: "ltc5599 \<Rightarrow> u32 \<Rightarrow> int \<times> ltc5599" where
  "ltc5599_write_gain st val =
     (let tmp = shadowregs st ! unat (LTC5599_GAIN_REG :: u32);
          tmp = (ucast (((ucast tmp :: u32) AND NOT LTC5599_GAIN_MASK)
                        OR LTC5599_GAIN_VALUE val) :: u8);
          (ret, st1) = ltc5599_write st LTC5599_GAIN_REG tmp
      in if ret \<noteq> 0 then (ret, st1)
         else (0, st1\<lparr>shadowregs := (shadowregs st1)[unat (LTC5599_GAIN_REG :: u32) := tmp]\<rparr>))"

definition ltc5599_read_gain :: "ltc5599 \<Rightarrow> (int + u32) \<times> ltc5599" where
  "ltc5599_read_gain st =
     (case ltc5599_read st LTC5599_GAIN_REG of
        (Inl ret, st1) \<Rightarrow> (Inl ret, st1)
      | (Inr tmp, st1) \<Rightarrow>
          (let st2 = st1\<lparr>shadowregs := (shadowregs st1)[unat (LTC5599_GAIN_REG :: u32) := tmp]\<rparr>
           in (Inr (ucast (shadowregs st2 ! unat (LTC5599_GAIN_REG :: u32)) AND LTC5599_GAIN_MASK),
               st2)))"

definition ltc5599_write_offset :: "ltc5599 \<Rightarrow> u32 \<Rightarrow> s32 \<Rightarrow> int \<times> ltc5599" where
  "ltc5599_write_offset st chan val =
     (if chan > 1 then (- EINVAL, st)
      else
        (let val = (if 127 <s val then 127 else val);
             val = (if val <s - 127 then - 127 else val);
             val = val + 128;
             tmp = (ucast (LTC5599_OFFS_VALUE val) :: u8);
             (ret, st1) = ltc5599_write st (ucast (LTC5599_OFFSI_REG + chan)) tmp
         in if ret \<noteq> 0 then (ret, st1)
            else (0, st1\<lparr>shadowregs := (shadowregs st1)[unat (LTC5599_OFFSI_REG + chan) := tmp]\<rparr>)))"

definition ltc5599_read_offset :: "ltc5599 \<Rightarrow> u32 \<Rightarrow> (int + s32) \<times> ltc5599" where
  "ltc5599_read_offset st chan =
     (if chan > 1 then (Inl (- EINVAL), st)
      else
        (case ltc5599_read st (ucast (LTC5599_OFFSI_REG + chan)) of
           (Inl ret, st1) \<Rightarrow> (Inl ret, st1)
         | (Inr tmp, st1) \<Rightarrow>
             (let st2 = st1\<lparr>shadowregs := (shadowregs st1)[unat (LTC5599_OFFSI_REG + chan) := tmp]\<rparr>;
                  val = (ucast (shadowregs st2 ! unat (LTC5599_OFFSI_REG + chan)) :: s32);
                  val = val - 128
              in (Inr val, st2))))"

definition ltc5599_write_iqgainratio :: "ltc5599 \<Rightarrow> s32 \<Rightarrow> int \<times> ltc5599" where
  "ltc5599_write_iqgainratio st val =
     (let tmp = (ucast (LTC5599_IQ_GAINRAT_VALUE val) :: u8);
          tmp = tmp XOR 0x80;
          (ret, st1) = ltc5599_write st LTC5599_IQ_GAINRAT_REG tmp
      in if ret \<noteq> 0 then (ret, st1)
         else (0, st1\<lparr>shadowregs := (shadowregs st1)[unat (LTC5599_IQ_GAINRAT_REG :: u32) := tmp]\<rparr>))"

definition ltc5599_read_iqgainratio :: "ltc5599 \<Rightarrow> (int + s32) \<times> ltc5599" where
  "ltc5599_read_iqgainratio st =
     (case ltc5599_read st LTC5599_IQ_GAINRAT_REG of
        (Inl ret, st1) \<Rightarrow> (Inl ret, st1)
      | (Inr tmp, st1) \<Rightarrow>
          (let st2 = st1\<lparr>shadowregs :=
                           (shadowregs st1)[unat (LTC5599_IQ_GAINRAT_REG :: u32) := tmp]\<rparr>;
               val = (ucast (shadowregs st2 ! unat (LTC5599_IQ_GAINRAT_REG :: u32)) :: s32);
               val = val - 128
           in (Inr val, st2)))"

definition ltc5599_write_iqphasebalance :: "ltc5599 \<Rightarrow> s32 \<Rightarrow> int \<times> ltc5599" where
  "ltc5599_write_iqphasebalance st val =
     (let tmp2 = shadowregs st ! unat (LTC5599_FREQ_REG :: u32);
          tmp2 = (if val <s - 16
                  then (ucast ((ucast tmp2 :: u32) AND NOT LTC5599_IQ_PHASEBAL_EXT_SIGN_BIT) :: u8)
                  else (ucast ((ucast tmp2 :: u32) OR LTC5599_IQ_PHASEBAL_EXT_SIGN_BIT) :: u8));
          coarse = (if 0 <s val then c_sdiv (val + 16) 32 else c_sdiv (15 - val) 32);
          tmp1 = (ucast (LTC5599_IQ_PHASEBAL_EXT_VALUE coarse
                         OR LTC5599_IQ_PHASEBAL_FINE_VALUE ((val AND 0x1F) XOR 0x10)) :: u8);
          (ret, st1) = ltc5599_write st LTC5599_IQ_PHASEBAL_REG tmp1
      in if ret \<noteq> 0 then (ret, st1)
         else
           (let st2 = st1\<lparr>shadowregs :=
                            (shadowregs st1)[unat (LTC5599_IQ_PHASEBAL_REG :: u32) := tmp1]\<rparr>;
                (ret, st3) = ltc5599_write st2 LTC5599_FREQ_REG tmp2
            in if ret \<noteq> 0 then (ret, st3)
               else (0, st3\<lparr>shadowregs :=
                               (shadowregs st3)[unat (LTC5599_FREQ_REG :: u32) := tmp2]\<rparr>)))"

definition ltc5599_read_iqphasebalance :: "ltc5599 \<Rightarrow> (int + s32) \<times> ltc5599" where
  "ltc5599_read_iqphasebalance st =
     (case ltc5599_read st LTC5599_FREQ_REG of
        (Inl ret, st1) \<Rightarrow> (Inl ret, st1)
      | (Inr tmp, st1) \<Rightarrow>
          (let st2 = st1\<lparr>shadowregs := (shadowregs st1)[unat (LTC5599_FREQ_REG :: u32) := tmp]\<rparr>;
               multiplier = (if (ucast tmp :: s32) AND LTC5599_IQ_PHASEBAL_EXT_SIGN_BIT \<noteq> 0
                             then 1 else - 1 :: s32)
           in case ltc5599_read st2 LTC5599_IQ_PHASEBAL_REG of
                (Inl ret, st3) \<Rightarrow> (Inl ret, st3)
              | (Inr tmp, st3) \<Rightarrow>
                  (let st4 = st3\<lparr>shadowregs :=
                                   (shadowregs st3)[unat (LTC5599_IQ_PHASEBAL_REG :: u32) := tmp]\<rparr>;
                       coarse = drop_bit LTC5599_IQ_PHASEBAL_EXT_SHIFT
                                  ((ucast tmp :: s32) AND LTC5599_IQ_PHASEBAL_EXT_MASK);
                       val = ((ucast tmp :: s32) AND LTC5599_IQ_PHASEBAL_FINE_MASK) - 16;
                       val = val + multiplier * coarse * 32
                   in (Inr val, st4))))"

text \<open>\<open>ltc5599_fill_shadowregs\<close>: the documented reset values, with no bus traffic.\<close>

definition ltc5599_fill_shadowregs :: "ltc5599 \<Rightarrow> ltc5599" where
  "ltc5599_fill_shadowregs st =
     st\<lparr>shadowregs :=
          (replicate 32 0x00)
            [unat (LTC5599_FREQ_REG :: u32) := 0x2E,
             unat (LTC5599_GAIN_REG :: u32) := 0x84,
             unat (LTC5599_OFFSI_REG :: u32) := 0x80,
             unat (LTC5599_OFFSQ_REG :: u32) := 0x80,
             unat (LTC5599_IQ_GAINRAT_REG :: u32) := 0x80,
             unat (LTC5599_IQ_PHASEBAL_REG :: u32) := 0x10,
             unat (LTC5599_LOMATCH_OVR_REG :: u32) := 0x50,
             unat (LTC5599_TEMPCORR_OVR_REG :: u32) := 0x06,
             unat (LTC5599_MODE_REG :: u32) := 0x00]\<rparr>"

section \<open>Frequency to tuning word\<close>

definition freq_to_ctrl_word :: "u32 \<Rightarrow> u32" where
  "freq_to_ctrl_word freq_in_khz =
     (if freq_in_khz > 1249100 then 1
      else if freq_in_khz > 1248600 then 2
      else if freq_in_khz > 1238100 then 3
      else if freq_in_khz > 1214100 then 4
      else if freq_in_khz > 1191200 then 5
      else if freq_in_khz > 1165600 then 6
      else if freq_in_khz > 1141000 then 7
      else if freq_in_khz > 1120600 then 8
      else if freq_in_khz > 1100500 then 9
      else if freq_in_khz > 1069500 then 10
      else if freq_in_khz > 1039599 then 11
      else if freq_in_khz > 1023100 then 12
      else if freq_in_khz > 1007100 then 13
      else if freq_in_khz > 988300 then 14
      else if freq_in_khz > 961800 then 15
      else if freq_in_khz > 941300 then 16
      else if freq_in_khz > 921500 then 17
      else if freq_in_khz > 895200 then 18
      else if freq_in_khz > 877600 then 19
      else if freq_in_khz > 863600 then 20
      else if freq_in_khz > 843200 then 21
      else if freq_in_khz > 826900 then 22
      else if freq_in_khz > 807000 then 23
      else if freq_in_khz > 792300 then 24
      else if freq_in_khz > 772200 then 25
      else if freq_in_khz > 752700 then 26
      else if freq_in_khz > 734000 then 27
      else if freq_in_khz > 724200 then 28
      else if freq_in_khz > 704600 then 29
      else if freq_in_khz > 688700 then 30
      else if freq_in_khz > 673200 then 31
      else if freq_in_khz > 655200 then 32
      else if freq_in_khz > 638100 then 33
      else if freq_in_khz > 624600 then 34
      else if freq_in_khz > 611900 then 35
      else if freq_in_khz > 598400 then 36
      else if freq_in_khz > 585100 then 37
      else if freq_in_khz > 573900 then 38
      else if freq_in_khz > 563100 then 39
      else if freq_in_khz > 548100 then 40
      else if freq_in_khz > 538100 then 41
      else if freq_in_khz > 529100 then 42
      else if freq_in_khz > 518500 then 43
      else if freq_in_khz > 507000 then 44
      else if freq_in_khz > 497700 then 45
      else if freq_in_khz > 488000 then 46
      else if freq_in_khz > 471500 then 47
      else if freq_in_khz > 457700 then 48
      else if freq_in_khz > 448700 then 49
      else if freq_in_khz > 437400 then 50
      else if freq_in_khz > 426600 then 51
      else if freq_in_khz > 417500 then 52
      else if freq_in_khz > 407500 then 53
      else if freq_in_khz > 398000 then 54
      else if freq_in_khz > 390100 then 55
      else if freq_in_khz > 382800 then 56
      else if freq_in_khz > 376600 then 57
      else if freq_in_khz > 369800 then 58
      else if freq_in_khz > 353100 then 59
      else if freq_in_khz > 339000 then 60
      else if freq_in_khz > 332600 then 61
      else if freq_in_khz > 327200 then 62
      else if freq_in_khz > 320600 then 63
      else if freq_in_khz > 313700 then 64
      else if freq_in_khz > 309100 then 65
      else if freq_in_khz > 304500 then 66
      else if freq_in_khz > 288100 then 67
      else if freq_in_khz > 278300 then 68
      else if freq_in_khz > 274200 then 69
      else if freq_in_khz > 270300 then 70
      else if freq_in_khz > 266000 then 71
      else if freq_in_khz > 261899 then 72
      else if freq_in_khz > 258200 then 73
      else if freq_in_khz > 254100 then 74
      else if freq_in_khz > 243600 then 75
      else if freq_in_khz > 233800 then 76
      else if freq_in_khz > 230800 then 77
      else if freq_in_khz > 228000 then 78
      else if freq_in_khz > 220200 then 79
      else if freq_in_khz > 212600 then 80
      else if freq_in_khz > 210000 then 81
      else if freq_in_khz > 207600 then 82
      else if freq_in_khz > 202100 then 83
      else if freq_in_khz > 196200 then 84
      else if freq_in_khz > 193700 then 85
      else if freq_in_khz > 191200 then 86
      else if freq_in_khz > 186600 then 87
      else if freq_in_khz > 182000 then 88
      else if freq_in_khz > 179400 then 89
      else if freq_in_khz > 176000 then 90
      else if freq_in_khz > 170100 then 91
      else if freq_in_khz > 165000 then 92
      else if freq_in_khz > 162500 then 93
      else if freq_in_khz > 160000 then 94
      else if freq_in_khz > 156700 then 95
      else if freq_in_khz > 153600 then 96
      else if freq_in_khz > 151100 then 97
      else if freq_in_khz > 148600 then 98
      else if freq_in_khz > 142500 then 99
      else if freq_in_khz > 139600 then 100
      else if freq_in_khz > 136500 then 101
      else if freq_in_khz > 134300 then 102
      else if freq_in_khz > 131200 then 103
      else if freq_in_khz > 128100 then 104
      else if freq_in_khz > 126000 then 105
      else if freq_in_khz > 123800 then 106
      else if freq_in_khz > 121300 then 107
      else if freq_in_khz > 118300 then 108
      else if freq_in_khz > 115700 then 109
      else if freq_in_khz > 113500 then 110
      else if freq_in_khz > 111300 then 111
      else if freq_in_khz > 109500 then 112
      else if freq_in_khz > 107600 then 113
      else if freq_in_khz > 105600 then 114
      else if freq_in_khz > 103000 then 115
      else if freq_in_khz > 100300 then 116
      else if freq_in_khz > 98500 then 117
      else if freq_in_khz > 96600 then 118
      else if freq_in_khz > 94700 then 119
      else if freq_in_khz > 93000 then 120
      else 121)"

section \<open>The channel interface\<close>

text \<open>
  \<open>info\<close> selects the attribute; any mask value other than the five the driver handles
  takes the \<open>default\<close> branch. A channel descriptor carries the channel's address, which
  the offset accessors take as an \<open>unsigned int\<close>; the driver registers two channels,
  with addresses 0 and 1.
\<close>

datatype iio_chan_info_enum =
    IIO_CHAN_INFO_OFFSET
  | IIO_CHAN_INFO_FREQUENCY
  | IIO_CHAN_INFO_HARDWAREGAIN
  | IIO_CHAN_INFO_QUADRATURE_CORRECTION_RAW
  | IIO_CHAN_INFO_PHASE
  | IIO_CHAN_INFO_OTHER

record iio_chan_spec =
  channel :: u32
  address :: u32

definition LTC5599_CHANNEL :: "u32 \<Rightarrow> iio_chan_spec" where
  "LTC5599_CHANNEL chan = \<lparr>channel = chan, address = chan\<rparr>"

definition ltc5599_channels :: "iio_chan_spec list" where
  "ltc5599_channels = [LTC5599_CHANNEL 0, LTC5599_CHANNEL 1]"

text \<open>
  What a successful \<open>read_raw\<close> hands back: the format code it returns together with
  the out-parameters it has written (\<open>val\<close>, and \<open>val2\<close> for the gain).
\<close>

datatype iio_val =
    IIO_VAL_INT s32
  | IIO_VAL_INT_PLUS_MICRO_DB s32 s32

definition ltc5599_read_raw ::
  "ltc5599 \<Rightarrow> iio_chan_spec \<Rightarrow> iio_chan_info_enum \<Rightarrow> (int + iio_val) \<times> ltc5599" where
  "ltc5599_read_raw st chan info =
     (case info of
        IIO_CHAN_INFO_OFFSET \<Rightarrow>
          (case ltc5599_read_offset st (address chan) of
             (Inl ret, st1) \<Rightarrow> (Inl ret, st1)
           | (Inr val, st1) \<Rightarrow> (Inr (IIO_VAL_INT val), st1))
      | IIO_CHAN_INFO_FREQUENCY \<Rightarrow>
          (case ltc5599_read_freq st of
             (Inl ret, st1) \<Rightarrow> (Inl ret, st1)
           | (Inr tmp, st1) \<Rightarrow>
               (let tmp2 = (- 553 :: s64) * scast tmp * scast tmp * scast tmp;
                    tmp2 = tmp2 + 198810 * scast tmp * scast tmp;
                    tmp2 = tmp2 + (- 26120002) * scast tmp;
                    tmp2 = tmp2 + 1319492809
                in (Inr (IIO_VAL_INT (ucast tmp2)), st1)))
      | IIO_CHAN_INFO_HARDWAREGAIN \<Rightarrow>
          (case ltc5599_read_gain st of
             (Inl ret, st1) \<Rightarrow> (Inl ret, st1)
           | (Inr tmp, st1) \<Rightarrow> (Inr (IIO_VAL_INT_PLUS_MICRO_DB (- 1 * tmp) 0), st1))
      | IIO_CHAN_INFO_QUADRATURE_CORRECTION_RAW \<Rightarrow>
          (case ltc5599_read_iqgainratio st of
             (Inl ret, st1) \<Rightarrow> (Inl ret, st1)
           | (Inr val, st1) \<Rightarrow> (Inr (IIO_VAL_INT val), st1))
      | IIO_CHAN_INFO_PHASE \<Rightarrow>
          (case ltc5599_read_iqphasebalance st of
             (Inl ret, st1) \<Rightarrow> (Inl ret, st1)
           | (Inr val, st1) \<Rightarrow> (Inr (IIO_VAL_INT val), st1))
      | IIO_CHAN_INFO_OTHER \<Rightarrow> (Inl (- EINVAL), st))"

definition ltc5599_write_raw ::
  "ltc5599 \<Rightarrow> iio_chan_spec \<Rightarrow> s32 \<Rightarrow> s32 \<Rightarrow> iio_chan_info_enum \<Rightarrow> int \<times> ltc5599" where
  "ltc5599_write_raw st chan val val2 info =
     (case info of
        IIO_CHAN_INFO_OFFSET \<Rightarrow>
          if val <s - 127 \<or> 127 <s val then (- EINVAL, st)
          else ltc5599_write_offset st (address chan) val
      | IIO_CHAN_INFO_FREQUENCY \<Rightarrow>
          if val <s 30000000 \<or> 1300000000 <s val then (- EINVAL, st)
          else (let tmp = freq_to_ctrl_word (c_sdiv val 1000)
                in ltc5599_write_freq st tmp)
      | IIO_CHAN_INFO_HARDWAREGAIN \<Rightarrow>
          if 0 <s val then (- EINVAL, st)
          else (let tmp = - val;
                    tmp = (if tmp > 19 then 19 else tmp)
                in ltc5599_write_gain st tmp)
      | IIO_CHAN_INFO_QUADRATURE_CORRECTION_RAW \<Rightarrow>
          if val <s - 127 \<or> 127 <s val then (- EINVAL, st)
          else ltc5599_write_iqgainratio st val
      | IIO_CHAN_INFO_PHASE \<Rightarrow>
          if val <s - 240 \<or> 239 <s val then (- EINVAL, st)
          else ltc5599_write_iqphasebalance st val
      | IIO_CHAN_INFO_OTHER \<Rightarrow> (- EINVAL, st))"

section \<open>Probe\<close>

text \<open>
  What \<open>ltc5599_spi_probe\<close> does to the instance: it allocates it zeroed, binds the
  SPI device, fills the shadow registers and calls \<open>ltc5599_init_registers\<close>, which
  does nothing. Registering the device with the IIO core is outside the model.
\<close>

definition ltc5599_init_registers :: "ltc5599 \<Rightarrow> ltc5599" where
  "ltc5599_init_registers st = st"

definition ltc5599_spi_probe :: "spi_device \<Rightarrow> ltc5599" where
  "ltc5599_spi_probe dev =
     ltc5599_init_registers
       (ltc5599_fill_shadowregs \<lparr>spi = dev, data = [0, 0], shadowregs = replicate 32 0\<rparr>)"

text \<open>
  Buses used as concrete inputs: \<open>quiet_bus\<close> never fails; \<open>failing_bus\<close> fails its
  first transfer with errno 5 (\<open>EIO\<close>); \<open>second_failing_bus\<close> lets one transfer through
  and fails the next.
\<close>

definition quiet_bus :: spi_device where
  "quiet_bus = \<lparr>regs = (\<lambda>_. 0), faults = [], frames = []\<rparr>"

definition failing_bus :: spi_device where
  "failing_bus = \<lparr>regs = (\<lambda>_. 0), faults = [5], frames = []\<rparr>"

definition second_failing_bus :: spi_device where
  "second_failing_bus = \<lparr>regs = (\<lambda>_. 0), faults = [0, 5], frames = []\<rparr>"

section \<open>Vocabulary of the properties\<close>

text \<open>
  \<open>bus_never_fails\<close>: every scripted status is 0, so every coming transfer succeeds.
  \<open>freq_poly\<close> is the cubic of the specification, over the integers, to be compared
  with what \<open>ltc5599_read_raw\<close> computes in 64-bit arithmetic and narrows to \<open>int\<close>.
\<close>

definition bus_never_fails :: "spi_device \<Rightarrow> bool" where
  "bus_never_fails dev = list_all (\<lambda>e. e = 0) (faults dev)"

definition freq_poly :: "int \<Rightarrow> int" where
  "freq_poly w = - 553 * w ^ 3 + 198810 * w ^ 2 - 26120002 * w + 1319492809"

text \<open>
  The lookup in the words of the specification: a descending table of (threshold in
  kHz, tuning word) pairs, scanned from the highest threshold downward; the result is
  the word of the first threshold that the frequency exceeds, and 121 when it exceeds
  none. \<open>freq_to_ctrl_word\<close> above is the source's chain of comparisons; the two are
  compared below.
\<close>

definition freq_threshold_table :: "(u32 \<times> u32) list" where
  "freq_threshold_table =
    [
     (1249100, 1), (1248600, 2), (1238100, 3), (1214100, 4), (1191200, 5),
     (1165600, 6), (1141000, 7), (1120600, 8), (1100500, 9), (1069500, 10),
     (1039599, 11), (1023100, 12), (1007100, 13), (988300, 14), (961800, 15),
     (941300, 16), (921500, 17), (895200, 18), (877600, 19), (863600, 20),
     (843200, 21), (826900, 22), (807000, 23), (792300, 24), (772200, 25),
     (752700, 26), (734000, 27), (724200, 28), (704600, 29), (688700, 30),
     (673200, 31), (655200, 32), (638100, 33), (624600, 34), (611900, 35),
     (598400, 36), (585100, 37), (573900, 38), (563100, 39), (548100, 40),
     (538100, 41), (529100, 42), (518500, 43), (507000, 44), (497700, 45),
     (488000, 46), (471500, 47), (457700, 48), (448700, 49), (437400, 50),
     (426600, 51), (417500, 52), (407500, 53), (398000, 54), (390100, 55),
     (382800, 56), (376600, 57), (369800, 58), (353100, 59), (339000, 60),
     (332600, 61), (327200, 62), (320600, 63), (313700, 64), (309100, 65),
     (304500, 66), (288100, 67), (278300, 68), (274200, 69), (270300, 70),
     (266000, 71), (261899, 72), (258200, 73), (254100, 74), (243600, 75),
     (233800, 76), (230800, 77), (228000, 78), (220200, 79), (212600, 80),
     (210000, 81), (207600, 82), (202100, 83), (196200, 84), (193700, 85),
     (191200, 86), (186600, 87), (182000, 88), (179400, 89), (176000, 90),
     (170100, 91), (165000, 92), (162500, 93), (160000, 94), (156700, 95),
     (153600, 96), (151100, 97), (148600, 98), (142500, 99), (139600, 100),
     (136500, 101), (134300, 102), (131200, 103), (128100, 104), (126000, 105),
     (123800, 106), (121300, 107), (118300, 108), (115700, 109), (113500, 110),
     (111300, 111), (109500, 112), (107600, 113), (105600, 114), (103000, 115),
     (100300, 116), (98500, 117), (96600, 118), (94700, 119), (93000, 120)
    ]"

fun scan_thresholds :: "(u32 \<times> u32) list \<Rightarrow> u32 \<Rightarrow> u32" where
  "scan_thresholds [] freq_in_khz = 121"
| "scan_thresholds ((threshold, word) # rest) freq_in_khz =
     (if freq_in_khz > threshold then word else scan_thresholds rest freq_in_khz)"

section \<open>Bit-level facts about the constants\<close>

lemma bit_mask_consts:
  "bit (0x7F :: int) n \<longleftrightarrow> n < 7"
  "bit (0x1F :: int) n \<longleftrightarrow> n < 5"
  "bit (0xFF :: int) n \<longleftrightarrow> n < 8"
  "bit (0x07 :: int) n \<longleftrightarrow> n < 3"
proof -
  have "(0x7F :: int) = mask 7" "(0x1F :: int) = mask 5" "(0xFF :: int) = mask 8"
    "(0x07 :: int) = mask 3"
    by (simp_all add: mask_eq_exp_minus_1)
  then show "bit (0x7F :: int) n \<longleftrightarrow> n < 7" "bit (0x1F :: int) n \<longleftrightarrow> n < 5"
    "bit (0xFF :: int) n \<longleftrightarrow> n < 8" "bit (0x07 :: int) n \<longleftrightarrow> n < 3"
    by (simp_all only: bit_mask_iff possible_bit_int simp_thms)
qed

lemma bit_pow_consts:
  "bit (0x80 :: int) n \<longleftrightarrow> n = 7"
  "bit (0x10 :: int) n \<longleftrightarrow> n = 4"
proof -
  have "(0x80 :: int) = 2 ^ 7" "(0x10 :: int) = 2 ^ 4"
    by simp_all
  then show "bit (0x80 :: int) n \<longleftrightarrow> n = 7" "bit (0x10 :: int) n \<longleftrightarrow> n = 4"
    by (simp_all only: bit_exp_iff possible_bit_int simp_thms)
qed

lemmas bitw = bit_simps bit_mask_consts bit_pow_consts

section \<open>One register access, in closed form\<close>

lemma addr_of_write_frame:
  "drop_bit 1 (push_bit 1 (a AND 0x7F) AND NOT 1) = (a AND 0x7F :: u8)"
  by (rule bit_word_eqI) (auto simp add: bitw simp del: push_bit_Suc)

lemma addr_of_read_frame:
  "drop_bit 1 (push_bit 1 (a AND 0x7F) OR 1) = (a AND 0x7F :: u8)"
  by (rule bit_word_eqI) (auto simp add: bitw simp del: push_bit_Suc)

lemma write_frame_direction:
  "(push_bit 1 (a AND 0x7F) AND NOT 1) AND 1 = (0 :: u8)"
  by (rule bit_word_eqI) (auto simp add: bitw simp del: push_bit_Suc)

lemma read_frame_direction:
  "(push_bit 1 (a AND 0x7F) OR 1) AND 1 \<noteq> (0 :: u8)"
proof -
  have "bit ((push_bit 1 (a AND 0x7F) OR 1) AND (1 :: u8)) 0"
    by (simp add: bitw del: push_bit_Suc)
  then show ?thesis by auto
qed

lemma byte_and_0xFF: "v AND 0xFF = (v :: u8)"
  by (rule bit_word_eqI) (auto simp add: bitw)

lemma write_frame:
  "c AND 1 = 0 \<Longrightarrow>
   (let st1 = st\<lparr>data := [c, v]\<rparr>;
        (ret, rx, dev) = spi_read_while_write (spi st1) (data st1) False 2
    in (ret, st1\<lparr>spi := dev\<rparr>)) =
   (- int (next_errno (spi st)),
    st\<lparr>data := [c, v],
       spi := (spi st)\<lparr>faults := tl (faults (spi st)),
                        frames := frames (spi st) @ [ [c, v] ],
                        regs := (if next_errno (spi st) = 0
                                 then (regs (spi st))(drop_bit 1 c := v)
                                 else regs (spi st))\<rparr>\<rparr>)"
  by (simp add: spi_read_while_write_def spi_sync_def chip_exchange_def Let_def)

lemma read_frame:
  "c AND 1 \<noteq> 0 \<Longrightarrow>
   (let st1 = st\<lparr>data := [c, v]\<rparr>;
        (ret, tmp, dev) = spi_read_while_write (spi st1) (data st1) True 2;
        st2 = st1\<lparr>spi := dev\<rparr>
    in if ret < 0 then (Inl ret, st2) else (Inr (tmp ! 1), st2)) =
   (if next_errno (spi st) = 0 then Inr (regs (spi st) (drop_bit 1 c))
    else Inl (- int (next_errno (spi st))),
    st\<lparr>data := [c, v],
       spi := (spi st)\<lparr>faults := tl (faults (spi st)),
                        frames := frames (spi st) @ [ [c, v] ]\<rparr>\<rparr>)"
  by (simp add: spi_read_while_write_def spi_sync_def chip_exchange_def Let_def)

lemma ltc5599_write_eq:
  "ltc5599_write st a v =
     (- int (next_errno (spi st)),
      st\<lparr>data := [push_bit 1 (a AND 0x7F) AND NOT 1, v],
         spi := (spi st)\<lparr>faults := tl (faults (spi st)),
                          frames := frames (spi st) @ [ [push_bit 1 (a AND 0x7F) AND NOT 1, v] ],
                          regs := (if next_errno (spi st) = 0
                                   then (regs (spi st))(a AND 0x7F := v)
                                   else regs (spi st))\<rparr>\<rparr>)"
  unfolding ltc5599_write_def byte_and_0xFF
  by (subst write_frame [OF write_frame_direction]) (simp only: addr_of_write_frame)

lemma ltc5599_read_eq:
  "ltc5599_read st a =
     (if next_errno (spi st) = 0 then Inr (regs (spi st) (a AND 0x7F))
      else Inl (- int (next_errno (spi st))),
      st\<lparr>data := [push_bit 1 (a AND 0x7F) OR 1, 0xFF],
         spi := (spi st)\<lparr>faults := tl (faults (spi st)),
                          frames := frames (spi st) @ [ [push_bit 1 (a AND 0x7F) OR 1, 0xFF] ]\<rparr>\<rparr>)"
  unfolding ltc5599_read_def
  by (subst read_frame [OF read_frame_direction]) (simp only: addr_of_read_frame)

lemma chan_cases: "\<not> 1 < chan \<Longrightarrow> chan = 0 \<or> chan = (1 :: u32)"
  by (metis not_less_iff_gr_or_eq word_less_1)

section \<open>The fault script and the probed instance\<close>

lemma no_fault_next:
  "list_all (\<lambda>e. e = 0) fs \<Longrightarrow> (case fs of [] \<Rightarrow> 0 | e # _ \<Rightarrow> e) = (0 :: nat)"
  by (cases fs) simp_all

lemma no_fault_tl:
  "list_all (\<lambda>e. e = (0 :: nat)) fs \<Longrightarrow> list_all (\<lambda>e. e = 0) (tl fs)"
  by (cases fs) simp_all

lemma probe_shadow_length: "length (shadowregs (ltc5599_spi_probe dev)) = 32"
  by (simp add: ltc5599_spi_probe_def ltc5599_init_registers_def ltc5599_fill_shadowregs_def)

lemma probe_spi: "spi (ltc5599_spi_probe dev) = dev"
  by (simp add: ltc5599_spi_probe_def ltc5599_init_registers_def ltc5599_fill_shadowregs_def)

lemmas probe_simps = probe_shadow_length probe_spi

section \<open>Codecs, checked value by value\<close>

text \<open>
  The domains of the parameters are small, so each codec is evaluated on every value of
  its domain; a property of all words in a signed (or unsigned) range follows from the
  property of each integer of the range.
\<close>

lemma by_signed_range:
  assumes "list_all (\<lambda>i. P (word_of_int i :: s32)) [l..h]" and "l \<le> sint v" "sint v \<le> h"
  shows "P v"
proof -
  have "sint v \<in> set [l..h]"
    using assms(2,3) by simp
  with assms(1) have "P (word_of_int (sint v))"
    unfolding list_all_iff by (rule bspec)
  then show ?thesis by simp
qed

lemma by_unsigned_range:
  assumes "list_all (\<lambda>n. P (word_of_nat n :: u32)) [0..<k]" and "unat x < k"
  shows "P x"
proof -
  have "unat x \<in> set [0..<k]"
    using assms(2) by simp
  with assms(1) have "P (word_of_nat (unat x))"
    unfolding list_all_iff by (rule bspec)
  then show ?thesis by simp
qed

lemma offset_codec_all:
  "list_all (\<lambda>i. (ucast (ucast (LTC5599_OFFS_VALUE (word_of_int i + 128 :: s32)) :: u8) :: s32) - 128
       = word_of_int i) [- 127..127]"
  by code_simp

lemma offset_codec:
  assumes "- 127 \<le>s v" "v \<le>s 127"
  shows "(ucast (ucast (LTC5599_OFFS_VALUE (v + 128 :: s32)) :: u8) :: s32) - 128 = v"
proof (rule by_signed_range [OF offset_codec_all])
  show "- 127 \<le> sint v" using assms(1) by (simp add: word_sle_eq)
  show "sint v \<le> 127" using assms(2) by (simp add: word_sle_eq)
qed

lemma gainratio_codec_all:
  "list_all (\<lambda>i. (ucast ((ucast (LTC5599_IQ_GAINRAT_VALUE (word_of_int i :: s32)) :: u8) XOR 0x80)
                    :: s32) - 128
       = word_of_int i) [- 127..127]"
  by code_simp

lemma gainratio_codec:
  assumes "- 127 \<le>s v" "v \<le>s 127"
  shows "(ucast ((ucast (LTC5599_IQ_GAINRAT_VALUE v) :: u8) XOR 0x80) :: s32) - 128 = v"
proof (rule by_signed_range [OF gainratio_codec_all])
  show "- 127 \<le> sint v" using assms(1) by (simp add: word_sle_eq)
  show "sint v \<le> 127" using assms(2) by (simp add: word_sle_eq)
qed

lemma phase_codec_all:
  "list_all (\<lambda>i.
      (let v = (word_of_int i :: s32);
           tmp1 = (ucast (LTC5599_IQ_PHASEBAL_EXT_VALUE
                            (if 0 <s v then c_sdiv (v + 16) 32 else c_sdiv (15 - v) 32)
                          OR LTC5599_IQ_PHASEBAL_FINE_VALUE ((v AND 0x1F) XOR 0x10)) :: u8)
       in ((ucast tmp1 :: s32) AND LTC5599_IQ_PHASEBAL_FINE_MASK) - 16
          + (if v <s - 16 then - 1 else 1)
            * drop_bit LTC5599_IQ_PHASEBAL_EXT_SHIFT
                ((ucast tmp1 :: s32) AND LTC5599_IQ_PHASEBAL_EXT_MASK) * 32
          = v)) [- 240..239]"
  by code_simp

lemma phase_codec:
  assumes "- 240 \<le>s v" "v \<le>s 239"
  shows "(let tmp1 = (ucast (LTC5599_IQ_PHASEBAL_EXT_VALUE
                            (if 0 <s v then c_sdiv (v + 16) 32 else c_sdiv (15 - v) 32)
                          OR LTC5599_IQ_PHASEBAL_FINE_VALUE ((v AND 0x1F) XOR 0x10)) :: u8)
       in ((ucast tmp1 :: s32) AND LTC5599_IQ_PHASEBAL_FINE_MASK) - 16
          + (if v <s - 16 then - 1 else 1)
            * drop_bit LTC5599_IQ_PHASEBAL_EXT_SHIFT
                ((ucast tmp1 :: s32) AND LTC5599_IQ_PHASEBAL_EXT_MASK) * 32
          = v)"
proof -
  have "- 240 \<le> sint v" "sint v \<le> 239"
    using assms by (simp_all add: word_sle_eq)
  from by_signed_range [OF phase_codec_all this] show ?thesis
    by (simp only: Let_def)
qed

lemma sign_bit_written:
  "(ucast (ucast ((ucast t :: u32) OR push_bit 7 1) :: u8) :: s32) AND push_bit 7 1 \<noteq> 0"
  "(ucast (ucast ((ucast t :: u32) AND NOT (push_bit 7 1)) :: u8) :: s32) AND push_bit 7 1 = 0"
proof -
  have "bit ((ucast (ucast ((ucast t :: u32) OR push_bit 7 1) :: u8) :: s32) AND push_bit 7 1) 7"
    by (simp add: bitw del: push_bit_Suc)
  then show "(ucast (ucast ((ucast t :: u32) OR push_bit 7 1) :: u8) :: s32) AND push_bit 7 1 \<noteq> 0"
    by auto
  show "(ucast (ucast ((ucast t :: u32) AND NOT (push_bit 7 1)) :: u8) :: s32) AND push_bit 7 1 = 0"
    by (rule bit_word_eqI) (auto simp add: bitw)
qed

lemma freq_poly_all:
  "list_all (\<lambda>n.
      (let tmp = (word_of_nat n :: u32);
           tmp2 = (- 553 :: s64) * scast tmp * scast tmp * scast tmp;
           tmp2 = tmp2 + 198810 * scast tmp * scast tmp;
           tmp2 = tmp2 + (- 26120002) * scast tmp;
           tmp2 = tmp2 + 1319492809
       in (ucast tmp2 :: s32) = word_of_int (freq_poly (uint tmp)) \<and>
          sint (word_of_int (freq_poly (uint tmp)) :: s32) = freq_poly (uint tmp))) [0..<128]"
  by code_simp

lemma low7_bound: "unat ((ucast (b :: u8) :: u32) AND 0x7F) < 128"
proof -
  have "(ucast b :: u32) AND 0x7F \<le> 0x7F"
    by (rule word_and_le1)
  then show ?thesis
    by (simp add: word_le_nat_alt)
qed

lemma low7_ucast: "(ucast (b :: u8) :: u32) AND 0x7F = ucast (b AND 0x7F)"
  by (rule bit_word_eqI) (auto simp add: bitw)

section \<open>Read-modify-write of a shared register byte\<close>

lemma rmw_keeps_high:
  "(ucast (((ucast tmp :: u32) AND NOT 0x7F) OR (val AND 0x7F)) :: u8) AND NOT 0x7F
     = tmp AND NOT 0x7F"
  "(ucast (((ucast tmp :: u32) AND NOT 0x1F) OR (val AND 0x1F)) :: u8) AND NOT 0x1F
     = tmp AND NOT 0x1F"
  by (rule bit_word_eqI; auto simp add: bitw)+

lemma rmw_sets_low:
  "(ucast (((ucast tmp :: u32) AND NOT 0x7F) OR (val AND 0x7F)) :: u8) AND 0x7F
     = ucast (val AND 0x7F)"
  by (rule bit_word_eqI) (auto simp add: bitw)

lemma sign_keeps_low:
  "(ucast ((ucast tmp :: u32) AND NOT (push_bit 7 1)) :: u8) AND 0x7F = tmp AND 0x7F"
  "(ucast ((ucast tmp :: u32) OR push_bit 7 1) :: u8) AND 0x7F = tmp AND 0x7F"
  by (rule bit_word_eqI; auto simp add: bitw)+

section \<open>Inside its domain, the channel interface is the accessor\<close>

lemma read_raw_offset:
  "fst (ltc5599_read_offset s (address c)) = Inr v \<Longrightarrow>
   fst (ltc5599_read_raw s c IIO_CHAN_INFO_OFFSET) = Inr (IIO_VAL_INT v)"
  by (cases "ltc5599_read_offset s (address c)") (simp add: ltc5599_read_raw_def)

lemma read_raw_iqgainratio:
  "fst (ltc5599_read_iqgainratio s) = Inr v \<Longrightarrow>
   fst (ltc5599_read_raw s c IIO_CHAN_INFO_QUADRATURE_CORRECTION_RAW) = Inr (IIO_VAL_INT v)"
  by (cases "ltc5599_read_iqgainratio s") (simp add: ltc5599_read_raw_def)

lemma read_raw_iqphasebalance:
  "fst (ltc5599_read_iqphasebalance s) = Inr v \<Longrightarrow>
   fst (ltc5599_read_raw s c IIO_CHAN_INFO_PHASE) = Inr (IIO_VAL_INT v)"
  by (cases "ltc5599_read_iqphasebalance s") (simp add: ltc5599_read_raw_def)

lemma write_raw_offset:
  "- 127 \<le>s v \<Longrightarrow> v \<le>s 127 \<Longrightarrow>
   ltc5599_write_raw st c v val2 IIO_CHAN_INFO_OFFSET = ltc5599_write_offset st (address c) v"
  by (simp add: ltc5599_write_raw_def word_sless_alt word_sle_eq)

lemma write_raw_iqgainratio:
  "- 127 \<le>s v \<Longrightarrow> v \<le>s 127 \<Longrightarrow>
   ltc5599_write_raw st c v val2 IIO_CHAN_INFO_QUADRATURE_CORRECTION_RAW
     = ltc5599_write_iqgainratio st v"
  by (simp add: ltc5599_write_raw_def word_sless_alt word_sle_eq)

lemma write_raw_iqphasebalance:
  "- 240 \<le>s v \<Longrightarrow> v \<le>s 239 \<Longrightarrow>
   ltc5599_write_raw st c v val2 IIO_CHAN_INFO_PHASE = ltc5599_write_iqphasebalance st v"
  by (simp add: ltc5599_write_raw_def word_sless_alt word_sle_eq)

section \<open>Offset: range check of the channel interface, clamp of the accessor\<close>

text \<open>
  C1, as stated, fails. The claim: a public offset write with input 200 succeeds, puts a
  write on the bus and stores byte 0xFF in the channel's offset register. On a freshly
  probed instance, for channel 0, \<open>ltc5599_write_raw\<close> returns \<open>-EINVAL\<close>, which is not
  0; no frame has been handed to the bus, and the shadow of the offset register still
  holds its reset value 0x80.
\<close>

theorem public_offset_write_200_counterexample:
  "fst (ltc5599_write_raw (ltc5599_spi_probe quiet_bus) (LTC5599_CHANNEL 0) 200 0
          IIO_CHAN_INFO_OFFSET) = - EINVAL \<and>
   fst (ltc5599_write_raw (ltc5599_spi_probe quiet_bus) (LTC5599_CHANNEL 0) 200 0
          IIO_CHAN_INFO_OFFSET) \<noteq> 0 \<and>
   frames (spi (snd (ltc5599_write_raw (ltc5599_spi_probe quiet_bus) (LTC5599_CHANNEL 0) 200 0
          IIO_CHAN_INFO_OFFSET))) = [] \<and>
   shadowregs (snd (ltc5599_write_raw (ltc5599_spi_probe quiet_bus) (LTC5599_CHANNEL 0) 200 0
          IIO_CHAN_INFO_OFFSET)) ! unat (LTC5599_OFFSI_REG :: u32) = 0x80"
  by (simp add: ltc5599_write_raw_def EINVAL_def ltc5599_spi_probe_def
      ltc5599_init_registers_def ltc5599_fill_shadowregs_def quiet_bus_def)

text \<open>
  C1, amended. The channel interface rejects an offset outside [-127, 127] with
  \<open>-EINVAL\<close> and leaves the instance as it was (no bus access, nothing stored). The
  clamp lives in the accessor \<open>ltc5599_write_offset\<close> alone: called with a value above
  127 (200, say) on channel 0 or 1, with the next transfer succeeding, it returns 0,
  puts one write frame for the channel's offset register on the bus, and stores 0xFF
  in the chip register and in its shadow; called with a value below -127 it stores
  0x01 in the same way.
\<close>

theorem offset_range_check_and_clamp:
  "(v <s - 127 \<or> 127 <s v \<longrightarrow>
      ltc5599_write_raw st c v val2 IIO_CHAN_INFO_OFFSET = (- EINVAL, st)) \<and>
   (length (shadowregs sq) = 32 \<and> next_errno (spi sq) = 0 \<and> chan \<le> 1 \<and>
    (127 <s u \<or> u <s - 127) \<longrightarrow>
      fst (ltc5599_write_offset sq chan u) = 0 \<and>
      frames (spi (snd (ltc5599_write_offset sq chan u))) =
        frames (spi sq) @
          [ [push_bit 1 (ucast (LTC5599_OFFSI_REG + chan)), if 127 <s u then 0xFF else 0x01] ] \<and>
      regs (spi (snd (ltc5599_write_offset sq chan u))) (ucast (LTC5599_OFFSI_REG + chan)) =
        (if 127 <s u then 0xFF else 0x01) \<and>
      shadowregs (snd (ltc5599_write_offset sq chan u)) ! unat (LTC5599_OFFSI_REG + chan) =
        (if 127 <s u then 0xFF else 0x01))"
proof (intro conjI impI)
  assume "v <s - 127 \<or> 127 <s v"
  then show "ltc5599_write_raw st c v val2 IIO_CHAN_INFO_OFFSET = (- EINVAL, st)"
    by (simp add: ltc5599_write_raw_def)
next
  assume a: "length (shadowregs sq) = 32 \<and> next_errno (spi sq) = 0 \<and> chan \<le> 1 \<and>
    (127 <s u \<or> u <s - 127)"
  then have c: "chan = 0 \<or> chan = 1"
    using chan_cases [of chan] by auto
  have n: "u <s - 127 \<Longrightarrow> \<not> 127 <s u"
    by (simp add: word_sless_alt)
  let ?b = "if 127 <s u then 0xFF else (0x01 :: u8)"
  have all: "fst (ltc5599_write_offset sq chan u) = 0 \<and>
      frames (spi (snd (ltc5599_write_offset sq chan u))) =
        frames (spi sq) @ [ [push_bit 1 (ucast (LTC5599_OFFSI_REG + chan)), ?b] ] \<and>
      regs (spi (snd (ltc5599_write_offset sq chan u))) (ucast (LTC5599_OFFSI_REG + chan)) = ?b \<and>
      shadowregs (snd (ltc5599_write_offset sq chan u)) ! unat (LTC5599_OFFSI_REG + chan) = ?b"
    using c
  proof
    assume "chan = 0"
    with a n show ?thesis
      by (auto simp add: ltc5599_write_offset_def ltc5599_write_eq Let_def)
  next
    assume "chan = 1"
    with a n show ?thesis
      by (auto simp add: ltc5599_write_offset_def ltc5599_write_eq Let_def)
  qed
  from all show "fst (ltc5599_write_offset sq chan u) = 0" by simp
  from all show "frames (spi (snd (ltc5599_write_offset sq chan u))) =
        frames (spi sq) @ [ [push_bit 1 (ucast (LTC5599_OFFSI_REG + chan)), ?b] ]" by simp
  from all show "regs (spi (snd (ltc5599_write_offset sq chan u)))
        (ucast (LTC5599_OFFSI_REG + chan)) = ?b" by simp
  from all show "shadowregs (snd (ltc5599_write_offset sq chan u)) !
        unat (LTC5599_OFFSI_REG + chan) = ?b" by simp
qed

theorem offset_range_check_and_clamp_witness:
  "127 <s (200 :: s32) \<and>
   ltc5599_write_raw (ltc5599_spi_probe quiet_bus) (LTC5599_CHANNEL 1) 200 0
     IIO_CHAN_INFO_OFFSET = (- EINVAL, ltc5599_spi_probe quiet_bus) \<and>
   length (shadowregs (ltc5599_spi_probe quiet_bus)) = 32 \<and>
   next_errno (spi (ltc5599_spi_probe quiet_bus)) = 0 \<and> (1 :: u32) \<le> 1 \<and>
   fst (ltc5599_write_offset (ltc5599_spi_probe quiet_bus) 1 200) = 0 \<and>
   frames (spi (snd (ltc5599_write_offset (ltc5599_spi_probe quiet_bus) 1 200))) = [ [6, 0xFF] ] \<and>
   regs (spi (snd (ltc5599_write_offset (ltc5599_spi_probe quiet_bus) 1 200))) 3 = 0xFF \<and>
   shadowregs (snd (ltc5599_write_offset (ltc5599_spi_probe quiet_bus) 1 200)) ! 3 = 0xFF"
  using offset_range_check_and_clamp
    [of 200 "ltc5599_spi_probe quiet_bus" "LTC5599_CHANNEL 1" 0 "ltc5599_spi_probe quiet_bus" 1 200]
  by (simp add: probe_simps quiet_bus_def next_errno_def)

section \<open>Round trips through the chip\<close>

text \<open>
  C2. For every phase balance \<open>v\<close> in [-240, 239], on a bus that never fails: the write
  succeeds; it leaves in the phase register the 3-bit coarse field (bits 5 to 7) and
  the fine field \<open>(v & 0x1F) ^ 0x10\<close> (bits 0 to 4), and in bit 7 of the frequency
  register the sign, set exactly when \<open>v \<ge> -16\<close>; and the read that follows returns
  \<open>v\<close>. This holds for the accessors and for the channel interface above them.
\<close>

theorem phase_balance_roundtrip:
  assumes "length (shadowregs st) = 32" "bus_never_fails (spi st)"
    and "- 240 \<le>s v" "v \<le>s 239"
  shows "fst (ltc5599_write_iqphasebalance st v) = 0 \<and>
         regs (spi (snd (ltc5599_write_iqphasebalance st v))) LTC5599_IQ_PHASEBAL_REG =
           ucast (LTC5599_IQ_PHASEBAL_EXT_VALUE
                    (if 0 <s v then c_sdiv (v + 16) 32 else c_sdiv (15 - v) 32)
                  OR LTC5599_IQ_PHASEBAL_FINE_VALUE ((v AND 0x1F) XOR 0x10)) \<and>
         (bit (regs (spi (snd (ltc5599_write_iqphasebalance st v))) LTC5599_FREQ_REG) 7
            \<longleftrightarrow> - 16 \<le>s v) \<and>
         fst (ltc5599_read_iqphasebalance (snd (ltc5599_write_iqphasebalance st v))) = Inr v \<and>
         fst (ltc5599_write_raw st c v val2 IIO_CHAN_INFO_PHASE) = 0 \<and>
         fst (ltc5599_read_raw (snd (ltc5599_write_raw st c v val2 IIO_CHAN_INFO_PHASE)) c
                IIO_CHAN_INFO_PHASE) = Inr (IIO_VAL_INT v)"
proof -
  have f: "list_all (\<lambda>e. e = 0) (faults (spi st))"
    using assms(2) by (simp add: bus_never_fails_def)
  note cod = phase_codec [OF assms(3,4)]
  have w: "fst (ltc5599_write_iqphasebalance st v) = 0"
    using f
    by (simp add: ltc5599_write_iqphasebalance_def ltc5599_write_eq Let_def next_errno_def
        no_fault_next no_fault_tl del: push_bit_Suc)
  have p: "regs (spi (snd (ltc5599_write_iqphasebalance st v))) LTC5599_IQ_PHASEBAL_REG =
           ucast (LTC5599_IQ_PHASEBAL_EXT_VALUE
                    (if 0 <s v then c_sdiv (v + 16) 32 else c_sdiv (15 - v) 32)
                  OR LTC5599_IQ_PHASEBAL_FINE_VALUE ((v AND 0x1F) XOR 0x10))"
    using f
    by (simp add: ltc5599_write_iqphasebalance_def ltc5599_write_eq Let_def next_errno_def
        no_fault_next no_fault_tl del: push_bit_Suc)
  have s: "bit (regs (spi (snd (ltc5599_write_iqphasebalance st v))) LTC5599_FREQ_REG) 7
            \<longleftrightarrow> - 16 \<le>s v"
    using f
    by (simp add: ltc5599_write_iqphasebalance_def ltc5599_write_eq Let_def next_errno_def
        no_fault_next no_fault_tl bitw word_sless_alt word_sle_eq del: push_bit_Suc)
  have r: "fst (ltc5599_read_iqphasebalance (snd (ltc5599_write_iqphasebalance st v))) = Inr v"
  proof (cases "v <s - 16")
    case True
    then show ?thesis
      using assms(1) f cod sign_bit_written(2) [of "shadowregs st ! 0"]
      by (simp add: ltc5599_write_iqphasebalance_def ltc5599_read_iqphasebalance_def
          ltc5599_write_eq ltc5599_read_eq Let_def next_errno_def no_fault_next no_fault_tl
          del: push_bit_Suc)
  next
    case False
    then show ?thesis
      using assms(1) f cod sign_bit_written(1) [of "shadowregs st ! 0"]
      by (simp add: ltc5599_write_iqphasebalance_def ltc5599_read_iqphasebalance_def
          ltc5599_write_eq ltc5599_read_eq Let_def next_errno_def no_fault_next no_fault_tl
          del: push_bit_Suc)
  qed
  show ?thesis
    using w p s r read_raw_iqphasebalance [OF r]
    by (simp only: write_raw_iqphasebalance [OF assms(3,4)] simp_thms)
qed

theorem phase_balance_roundtrip_witness:
  "length (shadowregs (ltc5599_spi_probe quiet_bus)) = 32 \<and>
   bus_never_fails (spi (ltc5599_spi_probe quiet_bus)) \<and>
   (- 240 :: s32) \<le>s - 100 \<and> (- 100 :: s32) \<le>s 239 \<and>
   fst (ltc5599_read_iqphasebalance
          (snd (ltc5599_write_iqphasebalance (ltc5599_spi_probe quiet_bus) (- 100)))) =
     Inr (- 100) \<and>
   fst (ltc5599_read_raw
          (snd (ltc5599_write_raw (ltc5599_spi_probe quiet_bus) (LTC5599_CHANNEL 0) (- 100) 0
                  IIO_CHAN_INFO_PHASE))
          (LTC5599_CHANNEL 0) IIO_CHAN_INFO_PHASE) = Inr (IIO_VAL_INT (- 100))"
  using phase_balance_roundtrip
    [of "ltc5599_spi_probe quiet_bus" "- 100" "LTC5599_CHANNEL 0" 0]
  by (simp add: probe_simps quiet_bus_def bus_never_fails_def)

text \<open>
  C3. For every quadrature gain ratio \<open>v\<close> in [-127, 127], on a bus that never fails:
  the write succeeds and leaves \<open>(v & 0xFF) ^ 0x80\<close> in the chip register, and the read
  that follows, which subtracts 128 from the byte, returns \<open>v\<close>. XOR with 0x80 and
  subtracting 128 are inverse to each other on this domain.
\<close>

theorem gain_ratio_roundtrip:
  assumes "length (shadowregs st) = 32" "bus_never_fails (spi st)"
    and "- 127 \<le>s v" "v \<le>s 127"
  shows "fst (ltc5599_write_iqgainratio st v) = 0 \<and>
         regs (spi (snd (ltc5599_write_iqgainratio st v))) LTC5599_IQ_GAINRAT_REG =
           ucast (LTC5599_IQ_GAINRAT_VALUE v) XOR 0x80 \<and>
         fst (ltc5599_read_iqgainratio (snd (ltc5599_write_iqgainratio st v))) = Inr v \<and>
         fst (ltc5599_write_raw st c v val2 IIO_CHAN_INFO_QUADRATURE_CORRECTION_RAW) = 0 \<and>
         fst (ltc5599_read_raw
                (snd (ltc5599_write_raw st c v val2 IIO_CHAN_INFO_QUADRATURE_CORRECTION_RAW)) c
                IIO_CHAN_INFO_QUADRATURE_CORRECTION_RAW) = Inr (IIO_VAL_INT v)"
proof -
  have f: "list_all (\<lambda>e. e = 0) (faults (spi st))"
    using assms(2) by (simp add: bus_never_fails_def)
  note cod = gainratio_codec [OF assms(3,4)]
  have w: "fst (ltc5599_write_iqgainratio st v) = 0"
    using f
    by (simp add: ltc5599_write_iqgainratio_def ltc5599_write_eq Let_def next_errno_def
        no_fault_next)
  have p: "regs (spi (snd (ltc5599_write_iqgainratio st v))) LTC5599_IQ_GAINRAT_REG =
           ucast (LTC5599_IQ_GAINRAT_VALUE v) XOR 0x80"
    using f
    by (simp add: ltc5599_write_iqgainratio_def ltc5599_write_eq Let_def next_errno_def
        no_fault_next)
  have r: "fst (ltc5599_read_iqgainratio (snd (ltc5599_write_iqgainratio st v))) = Inr v"
    using assms(1) f cod
    by (simp add: ltc5599_write_iqgainratio_def ltc5599_read_iqgainratio_def ltc5599_write_eq
        ltc5599_read_eq Let_def next_errno_def no_fault_next no_fault_tl)
  show ?thesis
    using w p r read_raw_iqgainratio [OF r]
    by (simp only: write_raw_iqgainratio [OF assms(3,4)] simp_thms)
qed

theorem gain_ratio_roundtrip_witness:
  "length (shadowregs (ltc5599_spi_probe quiet_bus)) = 32 \<and>
   bus_never_fails (spi (ltc5599_spi_probe quiet_bus)) \<and>
   (- 127 :: s32) \<le>s - 127 \<and> (- 127 :: s32) \<le>s 127 \<and>
   fst (ltc5599_read_iqgainratio
          (snd (ltc5599_write_iqgainratio (ltc5599_spi_probe quiet_bus) (- 127)))) =
     Inr (- 127) \<and>
   fst (ltc5599_read_raw
          (snd (ltc5599_write_raw (ltc5599_spi_probe quiet_bus) (LTC5599_CHANNEL 0) (- 127) 0
                  IIO_CHAN_INFO_QUADRATURE_CORRECTION_RAW))
          (LTC5599_CHANNEL 0) IIO_CHAN_INFO_QUADRATURE_CORRECTION_RAW) =
     Inr (IIO_VAL_INT (- 127))"
  using gain_ratio_roundtrip
    [of "ltc5599_spi_probe quiet_bus" "- 127" "LTC5599_CHANNEL 0" 0]
  by (simp add: probe_simps quiet_bus_def bus_never_fails_def)

text \<open>
  C4. For every offset \<open>v\<close> in [-127, 127] and channel 0 or 1, on a bus that never
  fails: the write succeeds and leaves \<open>v + 128\<close> in register \<open>LTC5599_OFFSI_REG +
  channel\<close> of the chip, and the read that follows, which subtracts 128 from the byte,
  returns \<open>v\<close>.
\<close>

theorem offset_roundtrip:
  assumes "length (shadowregs st) = 32" "bus_never_fails (spi st)"
    and "address c \<le> 1" "- 127 \<le>s v" "v \<le>s 127"
  shows "fst (ltc5599_write_offset st (address c) v) = 0 \<and>
         regs (spi (snd (ltc5599_write_offset st (address c) v)))
              (ucast (LTC5599_OFFSI_REG + address c)) = ucast (v + 128) \<and>
         fst (ltc5599_read_offset (snd (ltc5599_write_offset st (address c) v)) (address c))
           = Inr v \<and>
         fst (ltc5599_write_raw st c v val2 IIO_CHAN_INFO_OFFSET) = 0 \<and>
         fst (ltc5599_read_raw (snd (ltc5599_write_raw st c v val2 IIO_CHAN_INFO_OFFSET)) c
                IIO_CHAN_INFO_OFFSET) = Inr (IIO_VAL_INT v)"
proof -
  have ch: "address c = 0 \<or> address c = 1"
    using assms(3) chan_cases [of "address c"] by auto
  have n: "\<not> 127 <s v" "\<not> v <s - 127"
    using assms(4,5) by (simp_all add: word_sless_alt word_sle_eq)
  have f: "list_all (\<lambda>e. e = 0) (faults (spi st))"
    using assms(2) by (simp add: bus_never_fails_def)
  have b: "(ucast (LTC5599_OFFS_VALUE (v + 128)) :: u8) = ucast (v + 128)"
    by (rule bit_word_eqI) (auto simp add: bitw)
  note cod = offset_codec [OF assms(4,5)]
  have all: "fst (ltc5599_write_offset st (address c) v) = 0 \<and>
         regs (spi (snd (ltc5599_write_offset st (address c) v)))
              (ucast (LTC5599_OFFSI_REG + address c)) = ucast (v + 128) \<and>
         fst (ltc5599_read_offset (snd (ltc5599_write_offset st (address c) v)) (address c))
           = Inr v"
    using ch
  proof
    assume "address c = 0"
    then show ?thesis
      using assms(1) n f cod b
      by (simp add: ltc5599_write_offset_def ltc5599_read_offset_def ltc5599_write_eq
          ltc5599_read_eq Let_def next_errno_def no_fault_next no_fault_tl)
  next
    assume "address c = 1"
    then show ?thesis
      using assms(1) n f cod b
      by (simp add: ltc5599_write_offset_def ltc5599_read_offset_def ltc5599_write_eq
          ltc5599_read_eq Let_def next_errno_def no_fault_next no_fault_tl)
  qed
  then have r: "fst (ltc5599_read_offset (snd (ltc5599_write_offset st (address c) v))
                  (address c)) = Inr v"
    by simp
  show ?thesis
    using all read_raw_offset [OF r]
    by (simp only: write_raw_offset [OF assms(4,5)] simp_thms)
qed

theorem offset_roundtrip_witness:
  "length (shadowregs (ltc5599_spi_probe quiet_bus)) = 32 \<and>
   bus_never_fails (spi (ltc5599_spi_probe quiet_bus)) \<and>
   address (LTC5599_CHANNEL 1) \<le> 1 \<and> (- 127 :: s32) \<le>s 127 \<and> (127 :: s32) \<le>s 127 \<and>
   fst (ltc5599_read_offset
          (snd (ltc5599_write_offset (ltc5599_spi_probe quiet_bus) 1 127)) 1) = Inr 127 \<and>
   fst (ltc5599_read_raw
          (snd (ltc5599_write_raw (ltc5599_spi_probe quiet_bus) (LTC5599_CHANNEL 1) 127 0
                  IIO_CHAN_INFO_OFFSET))
          (LTC5599_CHANNEL 1) IIO_CHAN_INFO_OFFSET) = Inr (IIO_VAL_INT 127)"
  using offset_roundtrip
    [of "ltc5599_spi_probe quiet_bus" "LTC5599_CHANNEL 1" 127 0]
  by (simp add: probe_simps quiet_bus_def bus_never_fails_def LTC5599_CHANNEL_def)

section \<open>Frequency\<close>

text \<open>
  C5. The lookup compares the frequency in kHz with strict greater-than thresholds,
  at every one of them: it is the scan of the descending table (120 thresholds, words
  1 to 120 in order, 121 below the lowest) for the first threshold the frequency
  exceeds; a frequency equal to a threshold does not select that threshold's word but
  the next one, and one kHz more selects it. In particular the lookup returns tuning
  word 1 exactly above 1249100 kHz. A write of 1300000000 Hz selects tuning word 1, a
  write of exactly 1249100000 Hz selects 2, and a write of 30000000 Hz selects 121; when
  the transfer succeeds, the write through the channel interface returns 0 and that
  word is in the low 7 bits of the shadow frequency register.
\<close>

theorem frequency_tuning_words:
  "(freq_to_ctrl_word k = 1 \<longleftrightarrow> 1249100 < k) \<and>
   freq_to_ctrl_word k = scan_thresholds freq_threshold_table k \<and>
   list_all (\<lambda>(t, w). freq_to_ctrl_word t = w + 1 \<and> freq_to_ctrl_word (t + 1) = w)
     freq_threshold_table \<and>
   map snd freq_threshold_table = map word_of_nat [1..<121] \<and>
   sorted_wrt (\<lambda>a b. b < a) (map fst freq_threshold_table) \<and>
   freq_to_ctrl_word (c_sdiv 1300000000 1000) = 1 \<and>
   freq_to_ctrl_word (c_sdiv 1249100000 1000) = 2 \<and>
   freq_to_ctrl_word (c_sdiv 30000000 1000) = 121 \<and>
   (length (shadowregs st) = 32 \<and> next_errno (spi st) = 0 \<longrightarrow>
      fst (ltc5599_write_raw st c 1300000000 val2 IIO_CHAN_INFO_FREQUENCY) = 0 \<and>
      shadowregs (snd (ltc5599_write_raw st c 1300000000 val2 IIO_CHAN_INFO_FREQUENCY))
        ! unat (LTC5599_FREQ_REG :: u32) AND LTC5599_FREQ_MASK = 1 \<and>
      fst (ltc5599_write_raw st c 1249100000 val2 IIO_CHAN_INFO_FREQUENCY) = 0 \<and>
      shadowregs (snd (ltc5599_write_raw st c 1249100000 val2 IIO_CHAN_INFO_FREQUENCY))
        ! unat (LTC5599_FREQ_REG :: u32) AND LTC5599_FREQ_MASK = 2 \<and>
      fst (ltc5599_write_raw st c 30000000 val2 IIO_CHAN_INFO_FREQUENCY) = 0 \<and>
      shadowregs (snd (ltc5599_write_raw st c 30000000 val2 IIO_CHAN_INFO_FREQUENCY))
        ! unat (LTC5599_FREQ_REG :: u32) AND LTC5599_FREQ_MASK = 121)"
proof -
  have k: "freq_to_ctrl_word k = 1 \<longleftrightarrow> 1249100 < k"
    by (simp add: freq_to_ctrl_word_def)
  have sc: "freq_to_ctrl_word k = scan_thresholds freq_threshold_table k"
    unfolding freq_to_ctrl_word_def freq_threshold_table_def scan_thresholds.simps
    by (rule refl)
  have bd: "list_all (\<lambda>(t, w). freq_to_ctrl_word t = w + 1 \<and> freq_to_ctrl_word (t + 1) = w)
     freq_threshold_table"
    by code_simp
  have ws: "map snd freq_threshold_table = map word_of_nat [1..<121]"
    by code_simp
  have ds: "sorted_wrt (\<lambda>a b. b < a) (map fst freq_threshold_table)"
    by code_simp
  have w1: "freq_to_ctrl_word (c_sdiv 1300000000 1000) = 1"
    by (simp add: freq_to_ctrl_word_def c_sdiv_def)
  have w2: "freq_to_ctrl_word (c_sdiv 1249100000 1000) = 2"
    by (simp add: freq_to_ctrl_word_def c_sdiv_def)
  have w121: "freq_to_ctrl_word (c_sdiv 30000000 1000) = 121"
    by (simp add: freq_to_ctrl_word_def c_sdiv_def)
  have wr: "length (shadowregs st) = 32 \<Longrightarrow> next_errno (spi st) = 0 \<Longrightarrow>
      fst (ltc5599_write_freq st w) = 0 \<and>
      shadowregs (snd (ltc5599_write_freq st w)) ! unat (LTC5599_FREQ_REG :: u32)
        AND LTC5599_FREQ_MASK = ucast (LTC5599_FREQ_VALUE w)" for w
    using rmw_sets_low [of "shadowregs st ! 0" w]
    by (simp add: ltc5599_write_freq_def ltc5599_write_eq Let_def)
  have pub: "length (shadowregs st) = 32 \<and> next_errno (spi st) = 0 \<longrightarrow>
      fst (ltc5599_write_raw st c 1300000000 val2 IIO_CHAN_INFO_FREQUENCY) = 0 \<and>
      shadowregs (snd (ltc5599_write_raw st c 1300000000 val2 IIO_CHAN_INFO_FREQUENCY))
        ! unat (LTC5599_FREQ_REG :: u32) AND LTC5599_FREQ_MASK = 1 \<and>
      fst (ltc5599_write_raw st c 1249100000 val2 IIO_CHAN_INFO_FREQUENCY) = 0 \<and>
      shadowregs (snd (ltc5599_write_raw st c 1249100000 val2 IIO_CHAN_INFO_FREQUENCY))
        ! unat (LTC5599_FREQ_REG :: u32) AND LTC5599_FREQ_MASK = 2 \<and>
      fst (ltc5599_write_raw st c 30000000 val2 IIO_CHAN_INFO_FREQUENCY) = 0 \<and>
      shadowregs (snd (ltc5599_write_raw st c 30000000 val2 IIO_CHAN_INFO_FREQUENCY))
        ! unat (LTC5599_FREQ_REG :: u32) AND LTC5599_FREQ_MASK = 121"
    using w1 w2 w121 wr [of 1] wr [of 2] wr [of 121]
    by (simp add: ltc5599_write_raw_def)
  from k sc bd ws ds w1 w2 w121 pub show ?thesis
    by (intro conjI)
qed

theorem frequency_tuning_words_witness:
  "length (shadowregs (ltc5599_spi_probe quiet_bus)) = 32 \<and>
   next_errno (spi (ltc5599_spi_probe quiet_bus)) = 0 \<and>
   fst (ltc5599_write_raw (ltc5599_spi_probe quiet_bus) (LTC5599_CHANNEL 0) 1249100000 0
          IIO_CHAN_INFO_FREQUENCY) = 0 \<and>
   shadowregs (snd (ltc5599_write_raw (ltc5599_spi_probe quiet_bus) (LTC5599_CHANNEL 0)
                      1249100000 0 IIO_CHAN_INFO_FREQUENCY)) ! 0 AND 0x7F = 2 \<and>
   freq_to_ctrl_word 1248600 = scan_thresholds freq_threshold_table 1248600"
  using frequency_tuning_words [of 1248600 "ltc5599_spi_probe quiet_bus" "LTC5599_CHANNEL 0" 0]
  by (simp add: probe_simps quiet_bus_def next_errno_def)

text \<open>
  C6. A frequency read whose transfer succeeds returns the cubic
  \<open>-553 w^3 + 198810 w^2 - 26120002 w + 1319492809\<close> at \<open>w\<close>, the low 7 bits of the
  chip's frequency register: the 64-bit evaluation of the driver, narrowed to \<open>int\<close>,
  is that integer, which fits an \<open>int\<close> for every 7-bit \<open>w\<close>.
\<close>

theorem frequency_read_polynomial:
  assumes "length (shadowregs st) = 32" "next_errno (spi st) = 0"
  shows "fst (ltc5599_read_raw st c IIO_CHAN_INFO_FREQUENCY) =
           Inr (IIO_VAL_INT (word_of_int
             (freq_poly (uint (regs (spi st) LTC5599_FREQ_REG AND LTC5599_FREQ_MASK))))) \<and>
         sint (word_of_int
             (freq_poly (uint (regs (spi st) LTC5599_FREQ_REG AND LTC5599_FREQ_MASK))) :: s32) =
           freq_poly (uint (regs (spi st) LTC5599_FREQ_REG AND LTC5599_FREQ_MASK))"
proof -
  define x where "x = (ucast (regs (spi st) 0) :: u32) AND 0x7F"
  have u: "uint x = uint (regs (spi st) 0 AND 0x7F)"
    unfolding x_def low7_ucast by (simp add: uint_up_ucast is_up)
  have p: "(let tmp = x;
           tmp2 = (- 553 :: s64) * scast tmp * scast tmp * scast tmp;
           tmp2 = tmp2 + 198810 * scast tmp * scast tmp;
           tmp2 = tmp2 + (- 26120002) * scast tmp;
           tmp2 = tmp2 + 1319492809
       in (ucast tmp2 :: s32) = word_of_int (freq_poly (uint tmp)) \<and>
          sint (word_of_int (freq_poly (uint tmp)) :: s32) = freq_poly (uint tmp))"
    unfolding x_def by (rule by_unsigned_range [OF freq_poly_all low7_bound])
  have "\<exists>s1. ltc5599_read_freq st = (Inr x, s1)"
    using assms by (simp add: ltc5599_read_freq_def ltc5599_read_eq x_def)
  then obtain s1 where r: "ltc5599_read_freq st = (Inr x, s1)" ..
  show ?thesis
    using p unfolding u [symmetric]
    by (simp add: ltc5599_read_raw_def r Let_def)
qed

theorem frequency_read_polynomial_witness:
  "length (shadowregs (ltc5599_spi_probe (quiet_bus\<lparr>regs := (\<lambda>_. 0xAE)\<rparr>))) = 32 \<and>
   next_errno (spi (ltc5599_spi_probe (quiet_bus\<lparr>regs := (\<lambda>_. 0xAE)\<rparr>))) = 0 \<and>
   fst (ltc5599_read_raw (ltc5599_spi_probe (quiet_bus\<lparr>regs := (\<lambda>_. 0xAE)\<rparr>))
          (LTC5599_CHANNEL 0) IIO_CHAN_INFO_FREQUENCY) = Inr (IIO_VAL_INT 484827869)"
  using frequency_read_polynomial
    [of "ltc5599_spi_probe (quiet_bus\<lparr>regs := (\<lambda>_. 0xAE)\<rparr>)" "LTC5599_CHANNEL 0"]
  by (simp add: probe_simps quiet_bus_def next_errno_def freq_poly_def)

section \<open>Rejected inputs, failed transfers, shared register bytes\<close>

text \<open>
  C7. A write outside its domain is rejected with \<open>-EINVAL\<close> before any bus access: a
  gain above 0, a frequency outside [30000000, 1300000000], a quadrature gain ratio
  outside [-127, 127], a phase balance outside [-240, 239]. The instance that comes
  back is the one that went in: no frame on the bus, no shadow register stored.
\<close>

theorem out_of_domain_write_rejected:
  "(0 <s vg \<longrightarrow>
      ltc5599_write_raw st c vg val2 IIO_CHAN_INFO_HARDWAREGAIN = (- EINVAL, st)) \<and>
   (vf <s 30000000 \<or> 1300000000 <s vf \<longrightarrow>
      ltc5599_write_raw st c vf val2 IIO_CHAN_INFO_FREQUENCY = (- EINVAL, st)) \<and>
   (vq <s - 127 \<or> 127 <s vq \<longrightarrow>
      ltc5599_write_raw st c vq val2 IIO_CHAN_INFO_QUADRATURE_CORRECTION_RAW = (- EINVAL, st)) \<and>
   (vp <s - 240 \<or> 239 <s vp \<longrightarrow>
      ltc5599_write_raw st c vp val2 IIO_CHAN_INFO_PHASE = (- EINVAL, st))"
  by (simp add: ltc5599_write_raw_def)

theorem out_of_domain_write_rejected_witness:
  "0 <s (5 :: s32) \<and>
   ltc5599_write_raw (ltc5599_spi_probe quiet_bus) (LTC5599_CHANNEL 0) 5 0
     IIO_CHAN_INFO_HARDWAREGAIN = (- EINVAL, ltc5599_spi_probe quiet_bus) \<and>
   (29999999 :: s32) <s 30000000 \<and>
   ltc5599_write_raw (ltc5599_spi_probe quiet_bus) (LTC5599_CHANNEL 0) 29999999 0
     IIO_CHAN_INFO_FREQUENCY = (- EINVAL, ltc5599_spi_probe quiet_bus) \<and>
   127 <s (128 :: s32) \<and>
   ltc5599_write_raw (ltc5599_spi_probe quiet_bus) (LTC5599_CHANNEL 0) 128 0
     IIO_CHAN_INFO_QUADRATURE_CORRECTION_RAW = (- EINVAL, ltc5599_spi_probe quiet_bus) \<and>
   (- 241 :: s32) <s - 240 \<and>
   ltc5599_write_raw (ltc5599_spi_probe quiet_bus) (LTC5599_CHANNEL 0) (- 241) 0
     IIO_CHAN_INFO_PHASE = (- EINVAL, ltc5599_spi_probe quiet_bus)"
  using out_of_domain_write_rejected
    [of 5 "ltc5599_spi_probe quiet_bus" "LTC5599_CHANNEL 0" 0 29999999 128 "- 241"]
  by (simp add: word_sless_alt)

text \<open>
  C8. When the transfer of a single-register write (frequency, gain, quadrature gain
  ratio, offset of channel 0 or 1) fails with errno \<open>e\<close>, the accessor returns \<open>-e\<close> and
  the shadow registers are all as before; so does any write through the channel
  interface whose first transfer fails, unless it has rejected its input with
  \<open>-EINVAL\<close>. When the first transfer of the phase-balance
  write succeeds and the second fails with errno \<open>e2\<close>, the accessor returns \<open>-e2\<close>; the
  shadow of the phase register holds the new byte, every other shadow register,
  the frequency register among them, is as before.
\<close>

theorem failed_write_and_shadow:
  "(faults (spi st) = e # rest \<and> e \<noteq> 0 \<longrightarrow>
      fst (ltc5599_write_freq st w) = - int e \<and>
      shadowregs (snd (ltc5599_write_freq st w)) = shadowregs st \<and>
      fst (ltc5599_write_gain st g) = - int e \<and>
      shadowregs (snd (ltc5599_write_gain st g)) = shadowregs st \<and>
      fst (ltc5599_write_iqgainratio st q) = - int e \<and>
      shadowregs (snd (ltc5599_write_iqgainratio st q)) = shadowregs st \<and>
      (chan \<le> 1 \<longrightarrow>
         fst (ltc5599_write_offset st chan v) = - int e \<and>
         shadowregs (snd (ltc5599_write_offset st chan v)) = shadowregs st) \<and>
      fst (ltc5599_write_raw st c x val2 info) \<in> {- int e, - EINVAL} \<and>
      shadowregs (snd (ltc5599_write_raw st c x val2 info)) = shadowregs st) \<and>
   (faults (spi sp) = 0 # e2 # rest2 \<and> e2 \<noteq> 0 \<and> length (shadowregs sp) = 32 \<longrightarrow>
      fst (ltc5599_write_iqphasebalance sp p) = - int e2 \<and>
      shadowregs (snd (ltc5599_write_iqphasebalance sp p)) =
        (shadowregs sp)
          [unat (LTC5599_IQ_PHASEBAL_REG :: u32) :=
             ucast (LTC5599_IQ_PHASEBAL_EXT_VALUE
                      (if 0 <s p then c_sdiv (p + 16) 32 else c_sdiv (15 - p) 32)
                    OR LTC5599_IQ_PHASEBAL_FINE_VALUE ((p AND 0x1F) XOR 0x10))] \<and>
      shadowregs (snd (ltc5599_write_iqphasebalance sp p)) ! unat (LTC5599_FREQ_REG :: u32) =
        shadowregs sp ! unat (LTC5599_FREQ_REG :: u32))"
proof -
  have raw: "fst (ltc5599_write_raw st c x val2 info) \<in> {- int e, - EINVAL} \<and>
      shadowregs (snd (ltc5599_write_raw st c x val2 info)) = shadowregs st"
    if "faults (spi st) = e # rest" "e \<noteq> 0"
    using that
    by (cases info)
      (simp_all add: ltc5599_write_raw_def ltc5599_write_freq_def ltc5599_write_gain_def
        ltc5599_write_iqgainratio_def ltc5599_write_offset_def ltc5599_write_iqphasebalance_def
        ltc5599_write_eq next_errno_def Let_def del: push_bit_Suc)
  then show ?thesis
    by (auto simp add: ltc5599_write_freq_def ltc5599_write_gain_def
        ltc5599_write_iqgainratio_def ltc5599_write_offset_def ltc5599_write_iqphasebalance_def
        ltc5599_write_eq next_errno_def Let_def simp del: push_bit_Suc)
qed

theorem failed_write_and_shadow_witness:
  "faults (spi (ltc5599_spi_probe failing_bus)) = [5] \<and> (5 :: nat) \<noteq> 0 \<and> (1 :: u32) \<le> 1 \<and>
   fst (ltc5599_write_freq (ltc5599_spi_probe failing_bus) 7) = - 5 \<and>
   shadowregs (snd (ltc5599_write_freq (ltc5599_spi_probe failing_bus) 7))
     = shadowregs (ltc5599_spi_probe failing_bus) \<and>
   fst (ltc5599_write_offset (ltc5599_spi_probe failing_bus) 1 33) = - 5 \<and>
   shadowregs (snd (ltc5599_write_offset (ltc5599_spi_probe failing_bus) 1 33))
     = shadowregs (ltc5599_spi_probe failing_bus) \<and>
   fst (ltc5599_write_raw (ltc5599_spi_probe failing_bus) (LTC5599_CHANNEL 0) (- 3) 0
          IIO_CHAN_INFO_HARDWAREGAIN) \<in> {- 5, - EINVAL} \<and>
   shadowregs (snd (ltc5599_write_raw (ltc5599_spi_probe failing_bus) (LTC5599_CHANNEL 0) (- 3) 0
          IIO_CHAN_INFO_HARDWAREGAIN)) = shadowregs (ltc5599_spi_probe failing_bus) \<and>
   faults (spi (ltc5599_spi_probe second_failing_bus)) = [0, 5] \<and>
   length (shadowregs (ltc5599_spi_probe second_failing_bus)) = 32 \<and>
   fst (ltc5599_write_iqphasebalance (ltc5599_spi_probe second_failing_bus) (- 100)) = - 5 \<and>
   shadowregs (snd (ltc5599_write_iqphasebalance (ltc5599_spi_probe second_failing_bus) (- 100)))
     ! 0 = shadowregs (ltc5599_spi_probe second_failing_bus) ! 0"
  using failed_write_and_shadow
    [of "ltc5599_spi_probe failing_bus" 5 "[]" 7 7 7 1 33 "LTC5599_CHANNEL 0" "- 3" 0
        IIO_CHAN_INFO_HARDWAREGAIN "ltc5599_spi_probe second_failing_bus" 5 "[]" "- 100"]
  by (simp add: probe_simps failing_bus_def second_failing_bus_def)

text \<open>
  C9. The write accessors build the byte from the shadow register, so the other
  fields of a shared byte stay: whatever the outcome of the transfers, a frequency
  write leaves bit 7 (the phase sign) of the shadow frequency register as it was, a gain
  write leaves bits 5 to 7 of the shadow gain register as they were, and a phase-balance
  write leaves the low 7 bits (the tuning word) of the shadow frequency register as
  they were. The same holds through the channel interface, for every input. When the
  accessor returns 0, the chip register holds the byte of the shadow register.
\<close>

theorem rmw_preserves_other_fields:
  assumes "length (shadowregs st) = 32"
  shows "shadowregs (snd (ltc5599_write_freq st w)) ! unat (LTC5599_FREQ_REG :: u32)
             AND NOT LTC5599_FREQ_MASK
           = shadowregs st ! unat (LTC5599_FREQ_REG :: u32) AND NOT LTC5599_FREQ_MASK \<and>
         shadowregs (snd (ltc5599_write_gain st g)) ! unat (LTC5599_GAIN_REG :: u32)
             AND NOT LTC5599_GAIN_MASK
           = shadowregs st ! unat (LTC5599_GAIN_REG :: u32) AND NOT LTC5599_GAIN_MASK \<and>
         shadowregs (snd (ltc5599_write_iqphasebalance st p)) ! unat (LTC5599_FREQ_REG :: u32)
             AND LTC5599_FREQ_MASK
           = shadowregs st ! unat (LTC5599_FREQ_REG :: u32) AND LTC5599_FREQ_MASK \<and>
         shadowregs (snd (ltc5599_write_raw st c vf val2 IIO_CHAN_INFO_FREQUENCY))
             ! unat (LTC5599_FREQ_REG :: u32) AND NOT LTC5599_FREQ_MASK
           = shadowregs st ! unat (LTC5599_FREQ_REG :: u32) AND NOT LTC5599_FREQ_MASK \<and>
         shadowregs (snd (ltc5599_write_raw st c vg val2 IIO_CHAN_INFO_HARDWAREGAIN))
             ! unat (LTC5599_GAIN_REG :: u32) AND NOT LTC5599_GAIN_MASK
           = shadowregs st ! unat (LTC5599_GAIN_REG :: u32) AND NOT LTC5599_GAIN_MASK \<and>
         shadowregs (snd (ltc5599_write_raw st c vp val2 IIO_CHAN_INFO_PHASE))
             ! unat (LTC5599_FREQ_REG :: u32) AND LTC5599_FREQ_MASK
           = shadowregs st ! unat (LTC5599_FREQ_REG :: u32) AND LTC5599_FREQ_MASK \<and>
         (fst (ltc5599_write_freq st w) = 0 \<longrightarrow>
            regs (spi (snd (ltc5599_write_freq st w))) LTC5599_FREQ_REG
              = shadowregs (snd (ltc5599_write_freq st w)) ! unat (LTC5599_FREQ_REG :: u32)) \<and>
         (fst (ltc5599_write_gain st g) = 0 \<longrightarrow>
            regs (spi (snd (ltc5599_write_gain st g))) LTC5599_GAIN_REG
              = shadowregs (snd (ltc5599_write_gain st g)) ! unat (LTC5599_GAIN_REG :: u32)) \<and>
         (fst (ltc5599_write_iqphasebalance st p) = 0 \<longrightarrow>
            regs (spi (snd (ltc5599_write_iqphasebalance st p))) LTC5599_FREQ_REG
              = shadowregs (snd (ltc5599_write_iqphasebalance st p))
                  ! unat (LTC5599_FREQ_REG :: u32))"
proof -
  have fr: "shadowregs (snd (ltc5599_write_freq st w)) ! unat (LTC5599_FREQ_REG :: u32)
             AND NOT LTC5599_FREQ_MASK
           = shadowregs st ! unat (LTC5599_FREQ_REG :: u32) AND NOT LTC5599_FREQ_MASK" for w
    using assms rmw_keeps_high(1) [of "shadowregs st ! 0"]
    by (simp add: ltc5599_write_freq_def ltc5599_write_eq Let_def)
  have ga: "shadowregs (snd (ltc5599_write_gain st g)) ! unat (LTC5599_GAIN_REG :: u32)
             AND NOT LTC5599_GAIN_MASK
           = shadowregs st ! unat (LTC5599_GAIN_REG :: u32) AND NOT LTC5599_GAIN_MASK" for g
    using assms rmw_keeps_high(2) [of "shadowregs st ! 1"]
    by (simp add: ltc5599_write_gain_def ltc5599_write_eq Let_def)
  have ph: "shadowregs (snd (ltc5599_write_iqphasebalance st p)) ! unat (LTC5599_FREQ_REG :: u32)
             AND LTC5599_FREQ_MASK
           = shadowregs st ! unat (LTC5599_FREQ_REG :: u32) AND LTC5599_FREQ_MASK" for p
    using assms sign_keeps_low [of "shadowregs st ! 0"]
    by (simp add: ltc5599_write_iqphasebalance_def ltc5599_write_eq Let_def
        del: push_bit_Suc)
  have pf: "shadowregs (snd (ltc5599_write_raw st c vf val2 IIO_CHAN_INFO_FREQUENCY))
             ! unat (LTC5599_FREQ_REG :: u32) AND NOT LTC5599_FREQ_MASK
           = shadowregs st ! unat (LTC5599_FREQ_REG :: u32) AND NOT LTC5599_FREQ_MASK"
    using fr by (simp add: ltc5599_write_raw_def)
  have pg: "shadowregs (snd (ltc5599_write_raw st c vg val2 IIO_CHAN_INFO_HARDWAREGAIN))
             ! unat (LTC5599_GAIN_REG :: u32) AND NOT LTC5599_GAIN_MASK
           = shadowregs st ! unat (LTC5599_GAIN_REG :: u32) AND NOT LTC5599_GAIN_MASK"
    using ga by (simp add: ltc5599_write_raw_def Let_def)
  have pp: "shadowregs (snd (ltc5599_write_raw st c vp val2 IIO_CHAN_INFO_PHASE))
             ! unat (LTC5599_FREQ_REG :: u32) AND LTC5599_FREQ_MASK
           = shadowregs st ! unat (LTC5599_FREQ_REG :: u32) AND LTC5599_FREQ_MASK"
    using ph by (simp add: ltc5599_write_raw_def)
  have cf: "fst (ltc5599_write_freq st w) = 0 \<longrightarrow>
            regs (spi (snd (ltc5599_write_freq st w))) LTC5599_FREQ_REG
              = shadowregs (snd (ltc5599_write_freq st w)) ! unat (LTC5599_FREQ_REG :: u32)"
    using assms by (simp add: ltc5599_write_freq_def ltc5599_write_eq Let_def)
  have cg: "fst (ltc5599_write_gain st g) = 0 \<longrightarrow>
            regs (spi (snd (ltc5599_write_gain st g))) LTC5599_GAIN_REG
              = shadowregs (snd (ltc5599_write_gain st g)) ! unat (LTC5599_GAIN_REG :: u32)"
    using assms by (simp add: ltc5599_write_gain_def ltc5599_write_eq Let_def)
  have cp: "fst (ltc5599_write_iqphasebalance st p) = 0 \<longrightarrow>
            regs (spi (snd (ltc5599_write_iqphasebalance st p))) LTC5599_FREQ_REG
              = shadowregs (snd (ltc5599_write_iqphasebalance st p))
                  ! unat (LTC5599_FREQ_REG :: u32)"
    using assms
    by (simp add: ltc5599_write_iqphasebalance_def ltc5599_write_eq Let_def
        del: push_bit_Suc)
  from fr ga ph pf pg pp cf cg cp show ?thesis
    by (intro conjI)
qed

theorem rmw_preserves_other_fields_witness:
  "length (shadowregs (ltc5599_spi_probe quiet_bus)) = 32 \<and>
   fst (ltc5599_write_gain (ltc5599_spi_probe quiet_bus) 19) = 0 \<and>
   shadowregs (snd (ltc5599_write_gain (ltc5599_spi_probe quiet_bus) 19)) ! 1 = 0x93 \<and>
   regs (spi (snd (ltc5599_write_gain (ltc5599_spi_probe quiet_bus) 19))) 1 = 0x93 \<and>
   shadowregs (ltc5599_spi_probe quiet_bus) ! 1 = 0x84 \<and>
   fst (ltc5599_write_freq (ltc5599_spi_probe quiet_bus) 1) = 0 \<and>
   regs (spi (snd (ltc5599_write_freq (ltc5599_spi_probe quiet_bus) 1))) 0
     = shadowregs (snd (ltc5599_write_freq (ltc5599_spi_probe quiet_bus) 1)) ! 0 \<and>
   fst (ltc5599_write_iqphasebalance (ltc5599_spi_probe quiet_bus) 100) = 0 \<and>
   regs (spi (snd (ltc5599_write_iqphasebalance (ltc5599_spi_probe quiet_bus) 100))) 0
     = shadowregs (snd (ltc5599_write_iqphasebalance (ltc5599_spi_probe quiet_bus) 100)) ! 0"
  using rmw_preserves_other_fields
    [of "ltc5599_spi_probe quiet_bus" 1 19 100 "LTC5599_CHANNEL 0" 1000000000 0 "- 3" 100]
  by (simp add: ltc5599_spi_probe_def ltc5599_init_registers_def ltc5599_fill_shadowregs_def
      quiet_bus_def next_errno_def ltc5599_write_gain_def ltc5599_write_freq_def
      ltc5599_write_iqphasebalance_def ltc5599_write_eq Let_def del: push_bit_Suc)

section \<open>Channel index check of the offset accessors\<close>

text \<open>
  C10. For a channel index greater than 1, the offset write and the offset read both
  return \<open>-EINVAL\<close> at once, whatever the value argument: the driver state that comes
  back is the one that went in, so no frame was put on the bus and no shadow register
  was stored.
\<close>

theorem offset_channel_above_one_rejected:
  "1 < chan \<Longrightarrow>
   ltc5599_write_offset st chan val = (- EINVAL, st) \<and>
   ltc5599_read_offset st chan = (Inl (- EINVAL), st)"
  by (simp add: ltc5599_write_offset_def ltc5599_read_offset_def)

theorem offset_channel_above_one_rejected_witness:
  "(1 :: u32) < 2 \<and>
   ltc5599_write_offset (ltc5599_spi_probe quiet_bus) 2 5
     = (- EINVAL, ltc5599_spi_probe quiet_bus) \<and>
   ltc5599_read_offset (ltc5599_spi_probe quiet_bus) 2
     = (Inl (- EINVAL), ltc5599_spi_probe quiet_bus)"
  using offset_channel_above_one_rejected [of 2 "ltc5599_spi_probe quiet_bus" 5]
  by simp

end
